theory Spec2Isabelle
  imports Main "HOL-Library.Word"
begin

section \<open>Python values, exceptions and arithmetic used by \<open>jpake/__init__.py\<close>\<close>

text \<open>
  The exceptions the module can raise.  \<open>OutOfSequenceError\<close>, \<open>InvalidProofError\<close> and
  \<open>DuplicateSignerError\<close> are the classes imported from \<open>jpake.exceptions\<close>; the others
  are Python built-ins raised by the module itself or by the arithmetic it calls.
\<close>

datatype error =
    OutOfSequenceError
  | InvalidProofError
  | DuplicateSignerError
  | ValueError
  | TypeError
  | AttributeError
  | ZeroDivisionError
  | OverflowError

type_synonym bytes = "8 word list"

text \<open>A value that is either a \<open>str\<close> or a \<open>bytes\<close> object (signer identity, secret).\<close>

datatype str_or_bytes = Str string | Bytes bytes

text \<open>The argument of \<open>set_secret\<close>: an \<open>int\<close>, a \<open>str\<close> or a \<open>bytes\<close> object.\<close>

datatype secret_value = SecretInt int | SecretText str_or_bytes

text \<open>
  \<open>str.encode('utf-8')\<close> on the code points an Isabelle \<open>char\<close> can hold (0 to 255):
  one byte below 128, two bytes from 128 on.
\<close>

definition utf8_char :: "char \<Rightarrow> bytes" where
  "utf8_char c =
     (let n = (of_char c :: nat)
      in if n < 128 then [of_nat n] else [of_nat (192 + n div 64), of_nat (128 + n mod 64)])"

definition encode_utf8 :: "string \<Rightarrow> bytes" where
  "encode_utf8 s = concat (map utf8_char s)"

text \<open>\<open>a % m\<close> on Python ints: floor modulus, \<open>ZeroDivisionError\<close> for a zero modulus.\<close>

definition py_mod :: "int \<Rightarrow> int \<Rightarrow> error + int" where
  "py_mod a m = (if m = 0 then Inl ZeroDivisionError else Inr (a mod m))"

text \<open>
  The modular inverse that three-argument \<open>pow\<close> computes for a negative exponent
  (modulus already made positive), from the Bezout coefficients.
\<close>

definition invmod :: "int \<Rightarrow> int \<Rightarrow> int option" where
  "invmod a m =
     (if gcd a m = 1 then Some (fst (bezw (nat (a mod m)) (nat m)) mod m) else None)"

text \<open>
  \<open>pow(b, e, m)\<close> on Python ints: \<open>ValueError\<close> for a zero modulus; for a negative
  exponent the base is replaced by its inverse modulo \<open>|m|\<close>, and \<open>ValueError\<close> is raised
  when the base is not invertible; the result has the sign of the modulus.
\<close>

definition pypow :: "int \<Rightarrow> int \<Rightarrow> int \<Rightarrow> error + int" where
  "pypow b e m =
     (if m = 0 then Inl ValueError
      else if 0 \<le> e then Inr (b ^ nat e mod m)
      else (case invmod b \<bar>m\<bar> of
              None \<Rightarrow> Inl ValueError
            | Some i \<Rightarrow> Inr (i ^ nat (- e) mod m)))"

subsection \<open>Byte strings\<close>

text \<open>\<open>int.bit_length()\<close>: the number of bits of the absolute value.\<close>

function bit_length :: "int \<Rightarrow> nat" where
  "bit_length n = (if n = 0 then 0 else Suc (bit_length (\<bar>n\<bar> div 2)))"
  by pat_completeness auto
termination
  by (relation "measure (\<lambda>n. nat \<bar>n\<bar>)") auto

declare bit_length.simps [simp del]

text \<open>
  \<open>num.to_bytes(n, 'big')\<close> (unsigned): \<open>OverflowError\<close> for a negative number or one
  that does not fit in \<open>n\<close> bytes.
\<close>

definition int_to_bytes :: "int \<Rightarrow> nat \<Rightarrow> error + bytes" where
  "int_to_bytes num n =
     (if num < 0 \<or> 256 ^ n \<le> num then Inl OverflowError
      else Inr (map (\<lambda>i. word_of_int (num div 256 ^ (n - Suc i))) [0..<n]))"

definition from_bytes :: "bytes \<Rightarrow> int" where
  "from_bytes bs = foldl (\<lambda>acc b. acc * 256 + uint b) 0 bs"

definition to_bytes :: "int \<Rightarrow> error + bytes" where
  "to_bytes num = int_to_bytes num (bit_length num div 8 + 1)"

text \<open>Sequencing of fallible steps: the first exception raised ends the computation.\<close>

definition then_e :: "error + 'a \<Rightarrow> ('a \<Rightarrow> error + 'b) \<Rightarrow> error + 'b" where
  "then_e r f = (case r of Inl e \<Rightarrow> Inl e | Inr v \<Rightarrow> f v)"

text \<open>The nested helper \<open>pascal\<close> of \<open>_default_zkp_hash_fn\<close>.\<close>

definition pascal :: "bytes \<Rightarrow> error + bytes" where
  "pascal s =
     (if 2 ^ 16 \<le> length s then Inl ValueError
      else then_e (int_to_bytes (int (length s)) 2) (\<lambda>header. Inr (header @ s)))"

text \<open>
  A value that may be \<open>None\<close> where an \<open>int\<close> is expected: arithmetic on \<open>None\<close>
  (\<open>None % m\<close>, \<open>a * None\<close>, \<open>pow(None, h, p)\<close>) raises \<open>TypeError\<close>, and
  \<open>_to_bytes(None)\<close> raises \<open>AttributeError\<close> (\<open>None\<close> has no method \<open>to_bytes\<close>).
\<close>

definition opt_int :: "int option \<Rightarrow> error + int" where
  "opt_int a = (case a of None \<Rightarrow> Inl TypeError | Some v \<Rightarrow> Inr v)"

definition opt_to_bytes :: "int option \<Rightarrow> error + bytes" where
  "opt_to_bytes a = (case a of None \<Rightarrow> Inl AttributeError | Some v \<Rightarrow> to_bytes v)"

text \<open>
  \<open>_default_zkp_hash_fn\<close>.  The digest function \<open>sha1\<close> comes from \<open>hashlib\<close> and is
  a parameter here.  The four arguments of \<open>b"".join\<close> are evaluated in order, so the
  first failing one decides the exception.  The public value \<open>gx\<close> is the one argument
  that a caller of the module can leave \<open>None\<close> (\<open>process_two\<close> without \<open>remote_A\<close>).
\<close>

definition default_zkp_hash_fn ::
  "(bytes \<Rightarrow> bytes) \<Rightarrow> int \<Rightarrow> int \<Rightarrow> int option \<Rightarrow> bytes \<Rightarrow> error + int" where
  "default_zkp_hash_fn sha1 gen gr gx signer =
     then_e (then_e (to_bytes gen) pascal) (\<lambda>s1.
     then_e (then_e (to_bytes gr) pascal) (\<lambda>s2.
     then_e (then_e (opt_to_bytes gx) pascal) (\<lambda>s3.
     then_e (pascal signer) (\<lambda>s4.
     Inr (from_bytes (sha1 (s1 @ s2 @ s3 @ s4)))))))"

section \<open>The session object\<close>

text \<open>
  A zero-knowledge proof as the dictionary \<open>{'gr': .., 'b': .., 'id': ..}\<close> that \<open>_zkp\<close>
  returns, and the two message dictionaries returned by \<open>one\<close> and \<open>two\<close>.
\<close>

record zkp_dict =
  zkp_gr :: int
  zkp_b :: int
  zkp_id :: bytes

record one_dict =
  m_gx1 :: int
  m_zkp_x1 :: zkp_dict
  m_gx2 :: int
  m_zkp_x2 :: zkp_dict

record two_dict =
  m_A :: int
  m_zkp_A :: zkp_dict

text \<open>
  The object passed as \<open>parameters\<close>; the module \<open>jpake.parameters\<close> that defines the
  presets is not part of the sources at hand, so the triple is a parameter.
\<close>

record parameters =
  par_p :: int
  par_g :: int
  par_q :: int

text \<open>
  The slots of \<open>JPAKE\<close>.  A slot that \<open>__init__\<close> does not assign is an \<open>option\<close>,
  \<open>None\<close> while it is unset; for the \<open>_remote_\<close> slots \<open>None\<close> also stands for the
  Python value \<open>None\<close> that an unverified consume may store.  The random source
  \<open>_rng\<close> is an external object: it is modelled by a tape of raw draws and the position
  of the next draw.  The challenge hash \<open>_zkp_hash\<close> is a function that may raise; its
  third argument, the public value, may be \<open>None\<close>.
\<close>

record session =
  rng_tape :: "nat \<Rightarrow> nat"
  rng_pos :: nat
  zkp_hash :: "int \<Rightarrow> int \<Rightarrow> int option \<Rightarrow> bytes \<Rightarrow> error + int"
  waiting_secret :: bool
  waiting_one :: bool
  waiting_two :: bool
  p :: int
  g :: int
  q :: int
  slot_secret :: "int option"
  signer_id :: bytes
  slot_A :: "int option"
  slot_zkp_A :: "zkp_dict option"
  x1 :: int
  x2 :: int
  slot_gx1 :: "int option"
  slot_gx2 :: "int option"
  slot_zkp_x1 :: "zkp_dict option"
  slot_zkp_x2 :: "zkp_dict option"
  slot_remote_A :: "int option"
  slot_remote_zkp_A :: "zkp_dict option"
  slot_remote_gx1 :: "int option"
  slot_remote_gx2 :: "int option"
  slot_remote_zkp_x1 :: "zkp_dict option"
  slot_remote_zkp_x2 :: "zkp_dict option"
  slot_K :: "int option"

text \<open>
  A method of the session: it returns a value or raises, and leaves the session in a
  (possibly changed) state either way.
\<close>

type_synonym 'a action = "session \<Rightarrow> (error + 'a) \<times> session"

definition ret :: "'a \<Rightarrow> 'a action" where
  "ret v s = (Inr v, s)"

definition raise :: "error \<Rightarrow> 'a action" where
  "raise e s = (Inl e, s)"

definition lift :: "(session \<Rightarrow> error + 'a) \<Rightarrow> 'a action" where
  "lift f s = (f s, s)"

definition assign :: "(session \<Rightarrow> session) \<Rightarrow> unit action" where
  "assign f s = (Inr (), f s)"

definition bnd :: "'a action \<Rightarrow> ('a \<Rightarrow> 'b action) \<Rightarrow> 'b action" where
  "bnd m f s = (case m s of (Inl e, s') \<Rightarrow> (Inl e, s') | (Inr v, s') \<Rightarrow> f v s')"

text \<open>Reading a slot that has no value raises \<open>AttributeError\<close>.\<close>

definition read_slot :: "(session \<Rightarrow> 'a option) \<Rightarrow> 'a action" where
  "read_slot f s = (case f s of None \<Rightarrow> (Inl AttributeError, s) | Some v \<Rightarrow> (Inr v, s))"

subsection \<open>The random source\<close>

text \<open>
  \<open>randrange(lo, hi)\<close> returns an integer in \<open>[lo, hi)\<close> and raises \<open>ValueError\<close> for an
  empty range; \<open>getrandbits(k)\<close> returns an integer below \<open>2 ^ k\<close>.  Each call
  takes the next raw draw of the tape.
\<close>

definition randrange :: "int \<Rightarrow> int \<Rightarrow> int action" where
  "randrange lo hi s =
     (if hi \<le> lo then (Inl ValueError, s)
      else (Inr (lo + int (rng_tape s (rng_pos s)) mod (hi - lo)), s\<lparr>rng_pos := Suc (rng_pos s)\<rparr>))"

definition getrandbits :: "nat \<Rightarrow> int action" where
  "getrandbits k s =
     (Inr (int (rng_tape s (rng_pos s)) mod 2 ^ k), s\<lparr>rng_pos := Suc (rng_pos s)\<rparr>)"

subsection \<open>Zero-knowledge proofs\<close>

text \<open>\<open>JPAKE._zkp\<close>; \<open>gx\<close> is \<open>None\<close> when the caller leaves it out.\<close>

definition zkp :: "int \<Rightarrow> int \<Rightarrow> int option \<Rightarrow> zkp_dict action" where
  "zkp generator exponent gx =
     bnd (case gx of
            None \<Rightarrow> lift (\<lambda>s. pypow generator exponent (p s))
          | Some v \<Rightarrow> ret v) (\<lambda>gxv.
     bnd (\<lambda>s. randrange 0 (q s) s) (\<lambda>r.
     bnd (lift (\<lambda>s. pypow generator r (p s))) (\<lambda>grv.
     bnd (lift (\<lambda>s. zkp_hash s generator grv (Some gxv) (signer_id s))) (\<lambda>h.
     bnd (lift (\<lambda>s. py_mod (r - exponent * h) (q s))) (\<lambda>bv.
     (\<lambda>s. ret \<lparr>zkp_gr = grv, zkp_b = bv, zkp_id = signer_id s\<rparr> s))))))"

text \<open>
  \<open>JPAKE._verify_zkp\<close>.  It only reads the session.  The proof may be the value
  \<open>None\<close> (subscripting it raises \<open>TypeError\<close>).  The public value may be \<open>None\<close>: it is
  passed to the challenge hash as it is, and \<open>pow(gx, h, p)\<close> raises \<open>TypeError\<close> on it.
\<close>

definition verify_zkp :: "int \<Rightarrow> int option \<Rightarrow> zkp_dict option \<Rightarrow> session \<Rightarrow> error + unit" where
  "verify_zkp generator gx zk s =
     (case zk of
        None \<Rightarrow> Inl TypeError
      | Some z \<Rightarrow>
          if zkp_id z = signer_id s then Inl DuplicateSignerError
          else
            then_e (zkp_hash s generator (zkp_gr z) gx (zkp_id z)) (\<lambda>h.
            then_e (pypow generator (zkp_b z) (p s)) (\<lambda>gb.
            then_e (then_e (opt_int gx) (\<lambda>gxv. pypow gxv h (p s))) (\<lambda>y.
            then_e (py_mod (gb * y) (p s)) (\<lambda>rhs.
            if zkp_gr z \<noteq> rhs then Inl InvalidProofError else Inr ())))))"

subsection \<open>The secret\<close>

text \<open>The property \<open>secret\<close>.\<close>

definition secret :: "int action" where
  "secret = (\<lambda>s. if waiting_secret s then raise AttributeError s else read_slot slot_secret s)"

text \<open>
  \<open>JPAKE.set_secret\<close>; \<open>None\<close> is the Python value \<open>None\<close>.  A \<open>str\<close> is encoded as
  UTF-8, and bytes are read as a big-endian integer.
\<close>

definition secret_to_int :: "secret_value \<Rightarrow> int" where
  "secret_to_int v =
     (case v of
        SecretInt n \<Rightarrow> n
      | SecretText (Str t) \<Rightarrow> from_bytes (encode_utf8 t)
      | SecretText (Bytes bs) \<Rightarrow> from_bytes bs)"

definition set_secret :: "secret_value option \<Rightarrow> unit action" where
  "set_secret val =
     (\<lambda>s. if \<not> waiting_secret s then raise OutOfSequenceError s
          else (case val of
                  None \<Rightarrow> raise ValueError s
                | Some v \<Rightarrow>
                    bnd (assign (\<lambda>s. s\<lparr>slot_secret := Some (secret_to_int v)\<rparr>)) (\<lambda>_.
                    assign (\<lambda>s. s\<lparr>waiting_secret := False\<rparr>)) s))"

subsection \<open>Round one\<close>

text \<open>
  \<open>JPAKE._compute_one\<close>.  The reads of \<open>self.gx1\<close> and \<open>self.gx2\<close> in its last two
  statements come after the assignments of \<open>_gx1\<close> and \<open>_gx2\<close>, so the properties
  return the slots just written.
\<close>

definition compute_one :: "unit action" where
  "compute_one =
     bnd (lift (\<lambda>s. pypow (g s) (x1 s) (p s))) (\<lambda>v1.
     bnd (assign (\<lambda>s. s\<lparr>slot_gx1 := Some v1\<rparr>)) (\<lambda>_.
     bnd (lift (\<lambda>s. pypow (g s) (x2 s) (p s))) (\<lambda>v2.
     bnd (assign (\<lambda>s. s\<lparr>slot_gx2 := Some v2\<rparr>)) (\<lambda>_.
     bnd (\<lambda>s. zkp (g s) (x1 s) (Some v1) s) (\<lambda>z1.
     bnd (assign (\<lambda>s. s\<lparr>slot_zkp_x1 := Some z1\<rparr>)) (\<lambda>_.
     bnd (\<lambda>s. zkp (g s) (x2 s) (Some v2) s) (\<lambda>z2.
     assign (\<lambda>s. s\<lparr>slot_zkp_x2 := Some z2\<rparr>))))))))"

text \<open>
  The properties \<open>gx1\<close>, \<open>gx2\<close>, \<open>zkp_x1\<close>, \<open>zkp_x2\<close>: each calls \<open>_compute_one\<close>
  when its own slot is unset, then returns the slot.
\<close>

definition lazy_one :: "(session \<Rightarrow> 'a option) \<Rightarrow> 'a action" where
  "lazy_one slot =
     (\<lambda>s. case slot s of
             None \<Rightarrow> bnd compute_one (\<lambda>_. read_slot slot) s
           | Some v \<Rightarrow> ret v s)"

definition gx1 :: "int action" where
  "gx1 = lazy_one slot_gx1"

definition gx2 :: "int action" where
  "gx2 = lazy_one slot_gx2"

definition zkp_x1 :: "zkp_dict action" where
  "zkp_x1 = lazy_one slot_zkp_x1"

definition zkp_x2 :: "zkp_dict action" where
  "zkp_x2 = lazy_one slot_zkp_x2"

text \<open>\<open>JPAKE.one\<close>.\<close>

definition one :: "one_dict action" where
  "one =
     bnd compute_one (\<lambda>_.
     bnd gx1 (\<lambda>a.
     bnd zkp_x1 (\<lambda>za.
     bnd gx2 (\<lambda>b.
     bnd zkp_x2 (\<lambda>zb.
     ret \<lparr>m_gx1 = a, m_zkp_x1 = za, m_gx2 = b, m_zkp_x2 = zb\<rparr>)))))"

text \<open>
  The properties \<open>remote_gx1\<close>, \<open>remote_gx2\<close>, \<open>remote_zkp_x1\<close>, \<open>remote_zkp_x2\<close>:
  \<open>AttributeError\<close> while round one is awaited, the stored value (possibly \<open>None\<close>)
  afterwards.
\<close>

definition remote_one :: "(session \<Rightarrow> 'a option) \<Rightarrow> session \<Rightarrow> error + 'a option" where
  "remote_one slot s = (if waiting_one s then Inl AttributeError else Inr (slot s))"

definition remote_gx1 :: "session \<Rightarrow> error + int option" where
  "remote_gx1 = remote_one slot_remote_gx1"

definition remote_gx2 :: "session \<Rightarrow> error + int option" where
  "remote_gx2 = remote_one slot_remote_gx2"

definition remote_zkp_x1 :: "session \<Rightarrow> error + zkp_dict option" where
  "remote_zkp_x1 = remote_one slot_remote_zkp_x1"

definition remote_zkp_x2 :: "session \<Rightarrow> error + zkp_dict option" where
  "remote_zkp_x2 = remote_one slot_remote_zkp_x2"

text \<open>\<open>remote_gx1 %= p\<close> on a value that may be \<open>None\<close>.\<close>

definition opt_mod :: "int option \<Rightarrow> int \<Rightarrow> error + int" where
  "opt_mod a m = (case a of None \<Rightarrow> Inl TypeError | Some v \<Rightarrow> py_mod v m)"

text \<open>
  The arguments of \<open>process_one\<close> after the \<open>data\<close> dictionary has been unpacked:
  the checks of lines 370 to 386.
\<close>

definition unpack_one ::
  "one_dict option \<Rightarrow> int option \<Rightarrow> int option \<Rightarrow> zkp_dict option \<Rightarrow> zkp_dict option \<Rightarrow> bool
     \<Rightarrow> error + (int option \<times> int option \<times> zkp_dict option \<times> zkp_dict option)" where
  "unpack_one data rgx1 rgx2 rz1 rz2 verify =
     (case data of
        None \<Rightarrow> Inr (rgx1, rgx2, rz1, rz2)
      | Some d \<Rightarrow>
          if rgx1 \<noteq> None \<or> rgx2 \<noteq> None \<or> rz1 \<noteq> None \<or> rz2 \<noteq> None then Inl TypeError
          else if \<not> verify then Inl ValueError
          else Inr (Some (m_gx1 d), Some (m_gx2 d), Some (m_zkp_x1 d), Some (m_zkp_x2 d)))"

text \<open>\<open>JPAKE.process_one\<close>.\<close>

definition process_one ::
  "one_dict option \<Rightarrow> int option \<Rightarrow> int option \<Rightarrow> zkp_dict option \<Rightarrow> zkp_dict option \<Rightarrow> bool
     \<Rightarrow> unit action" where
  "process_one data rgx1 rgx2 rz1 rz2 verify =
     (\<lambda>s. if \<not> waiting_one s then raise OutOfSequenceError s
          else
            bnd (lift (\<lambda>_. unpack_one data rgx1 rgx2 rz1 rz2 verify)) (\<lambda>(a, b, z1, z2).
            bnd (lift (\<lambda>s. opt_mod a (p s))) (\<lambda>a'.
            bnd (lift (\<lambda>s. opt_mod b (p s))) (\<lambda>b'.
            if b' = 1 then raise ValueError
            else
              bnd (if verify then
                     (if z1 = None \<or> z2 = None then raise TypeError
                      else
                        bnd (lift (\<lambda>s. verify_zkp (g s) (Some a') z1 s)) (\<lambda>_.
                        lift (\<lambda>s. verify_zkp (g s) (Some b') z2 s)))
                   else ret ()) (\<lambda>_.
              bnd (assign (\<lambda>s. s\<lparr>slot_remote_gx1 := Some a'\<rparr>)) (\<lambda>_.
              bnd (assign (\<lambda>s. s\<lparr>slot_remote_gx2 := Some b'\<rparr>)) (\<lambda>_.
              bnd (assign (\<lambda>s. s\<lparr>slot_remote_zkp_x1 := z1\<rparr>)) (\<lambda>_.
              bnd (assign (\<lambda>s. s\<lparr>slot_remote_zkp_x2 := z2\<rparr>)) (\<lambda>_.
              assign (\<lambda>s. s\<lparr>waiting_one := False\<rparr>))))))))) s)"

subsection \<open>Round two\<close>

text \<open>\<open>JPAKE._compute_two\<close>.\<close>

definition compute_two :: "unit action" where
  "compute_two =
     (\<lambda>s. if waiting_one s then raise OutOfSequenceError s
          else if waiting_secret s then raise OutOfSequenceError s
          else
            bnd (lift remote_gx1) (\<lambda>rg1.
            bnd (lift remote_gx2) (\<lambda>rg2.
            bnd gx1 (\<lambda>a.
            bnd (lift (\<lambda>s. then_e (opt_int rg1) (\<lambda>v. py_mod (a * v) (p s)))) (\<lambda>u.
            bnd (lift (\<lambda>s. then_e (opt_int rg2) (\<lambda>v. py_mod (u * v) (p s)))) (\<lambda>t1.
            bnd secret (\<lambda>sec.
            bnd (lift (\<lambda>s. py_mod (x2 s * sec) (p s))) (\<lambda>t2.
            bnd (lift (\<lambda>s. pypow t1 t2 (p s))) (\<lambda>av.
            bnd (zkp t1 t2 (Some av)) (\<lambda>zv.
            bnd (assign (\<lambda>s. s\<lparr>slot_A := Some av\<rparr>)) (\<lambda>_.
            assign (\<lambda>s. s\<lparr>slot_zkp_A := Some zv\<rparr>))))))))))) s)"

text \<open>
  The \<open>try ... except OutOfSequenceError as e: raise AttributeError(..) from e\<close> of the
  properties \<open>A\<close>, \<open>zkp_A\<close> and \<open>K\<close>.
\<close>

definition as_attribute_error :: "'a action \<Rightarrow> 'a action" where
  "as_attribute_error m s =
     (case m s of
        (Inl e, s') \<Rightarrow> (Inl (if e = OutOfSequenceError then AttributeError else e), s')
      | (Inr v, s') \<Rightarrow> (Inr v, s'))"

text \<open>The properties \<open>A\<close> and \<open>zkp_A\<close>.\<close>

definition lazy_two :: "(session \<Rightarrow> 'a option) \<Rightarrow> 'a action" where
  "lazy_two slot =
     (\<lambda>s. case slot s of
             None \<Rightarrow> bnd (as_attribute_error compute_two) (\<lambda>_. read_slot slot) s
           | Some v \<Rightarrow> ret v s)"

definition A :: "int action" where
  "A = lazy_two slot_A"

definition zkp_A :: "zkp_dict action" where
  "zkp_A = lazy_two slot_zkp_A"

text \<open>\<open>JPAKE.two\<close>.\<close>

definition two :: "two_dict action" where
  "two =
     bnd compute_two (\<lambda>_.
     bnd A (\<lambda>a.
     bnd zkp_A (\<lambda>z.
     ret \<lparr>m_A = a, m_zkp_A = z\<rparr>)))"

text \<open>The properties \<open>remote_A\<close> and \<open>remote_zkp_A\<close>.\<close>

definition remote_two :: "(session \<Rightarrow> 'a option) \<Rightarrow> session \<Rightarrow> error + 'a option" where
  "remote_two slot s = (if waiting_two s then Inl AttributeError else Inr (slot s))"

definition remote_A :: "session \<Rightarrow> error + int option" where
  "remote_A = remote_two slot_remote_A"

definition remote_zkp_A :: "session \<Rightarrow> error + zkp_dict option" where
  "remote_zkp_A = remote_two slot_remote_zkp_A"

text \<open>The unpacking of \<open>data\<close> in \<open>process_two\<close> (lines 482 to 486).\<close>

definition unpack_two ::
  "two_dict option \<Rightarrow> int option \<Rightarrow> zkp_dict option \<Rightarrow> error + (int option \<times> zkp_dict option)" where
  "unpack_two data rA rzA =
     (case data of
        None \<Rightarrow> Inr (rA, rzA)
      | Some d \<Rightarrow>
          if rA \<noteq> None \<or> rzA \<noteq> None then Inl TypeError
          else Inr (Some (m_A d), Some (m_zkp_A d)))"

text \<open>\<open>JPAKE.process_two\<close>.\<close>

definition process_two ::
  "two_dict option \<Rightarrow> int option \<Rightarrow> zkp_dict option \<Rightarrow> bool \<Rightarrow> unit action" where
  "process_two data rA rzA verify =
     (\<lambda>s. if waiting_one s then raise OutOfSequenceError s
          else if \<not> waiting_two s then raise OutOfSequenceError s
          else
            bnd (lift (\<lambda>_. unpack_two data rA rzA)) (\<lambda>(a, z).
            bnd (if verify then
                   bnd gx1 (\<lambda>v1.
                   bnd gx2 (\<lambda>v2.
                   bnd (lift (\<lambda>s. py_mod (v1 * v2) (p s))) (\<lambda>u.
                   bnd (lift remote_gx1) (\<lambda>rg1.
                   bnd (lift (\<lambda>s. then_e (opt_int rg1) (\<lambda>v. py_mod (u * v) (p s)))) (\<lambda>generator.
                   lift (verify_zkp generator a z))))))
                 else ret ()) (\<lambda>_.
            bnd (assign (\<lambda>s. s\<lparr>slot_remote_A := a\<rparr>)) (\<lambda>_.
            bnd (assign (\<lambda>s. s\<lparr>slot_remote_zkp_A := z\<rparr>)) (\<lambda>_.
            assign (\<lambda>s. s\<lparr>waiting_two := False\<rparr>))))) s)"

subsection \<open>The key\<close>

text \<open>\<open>JPAKE._compute_three\<close>.\<close>

definition compute_three :: "unit action" where
  "compute_three =
     (\<lambda>s. if waiting_two s then raise OutOfSequenceError s
          else
            bnd (lift remote_gx2) (\<lambda>rg2.
            bnd secret (\<lambda>sec.
            bnd (lift (\<lambda>s. then_e (opt_int rg2) (\<lambda>v. pypow v (x2 s * (q s - sec)) (p s)))) (\<lambda>bottom.
            bnd (lift remote_A) (\<lambda>ra.
            bnd (lift (\<lambda>s. then_e (opt_int ra) (\<lambda>v. py_mod (v * bottom) (p s)))) (\<lambda>inner.
            bnd (lift (\<lambda>s. pypow inner (x2 s) (p s))) (\<lambda>kv.
            assign (\<lambda>s. s\<lparr>slot_K := Some kv\<rparr>))))))) s)"

text \<open>The property \<open>K\<close>.\<close>

definition K :: "int action" where
  "K =
     (\<lambda>s. case slot_K s of
             None \<Rightarrow> bnd (as_attribute_error compute_three) (\<lambda>_. read_slot slot_K) s
           | Some v \<Rightarrow> ret v s)"

subsection \<open>Construction\<close>

text \<open>
  \<open>JPAKE.__init__\<close>.  The arguments are the keyword arguments in the order of the
  signature; \<open>hash\<close> is the challenge hash in use (the caller's, or the default one)
  and \<open>tape\<close> the random source.  An exception leaves no object.
\<close>

definition blank ::
  "parameters \<Rightarrow> (int \<Rightarrow> int \<Rightarrow> int option \<Rightarrow> bytes \<Rightarrow> error + int) \<Rightarrow> (nat \<Rightarrow> nat)
     \<Rightarrow> session" where
  "blank params hash tape =
     \<lparr>rng_tape = tape, rng_pos = 0, zkp_hash = hash,
      waiting_secret = True, waiting_one = True, waiting_two = True,
      p = par_p params, g = par_g params, q = par_q params,
      slot_secret = None, signer_id = [],
      slot_A = None, slot_zkp_A = None,
      x1 = 0, x2 = 0,
      slot_gx1 = None, slot_gx2 = None, slot_zkp_x1 = None, slot_zkp_x2 = None,
      slot_remote_A = None, slot_remote_zkp_A = None,
      slot_remote_gx1 = None, slot_remote_gx2 = None,
      slot_remote_zkp_x1 = None, slot_remote_zkp_x2 = None,
      slot_K = None\<rparr>"

definition init_body ::
  "int option \<Rightarrow> int option \<Rightarrow> secret_value option \<Rightarrow> int option \<Rightarrow> int option \<Rightarrow> int option
     \<Rightarrow> str_or_bytes option \<Rightarrow> unit action" where
  "init_body x1_arg x2_arg secret_arg rgx1 rgx2 rA signer_arg =
     bnd (case signer_arg of
            Some (Str t) \<Rightarrow> ret (encode_utf8 t)
          | Some (Bytes bs) \<Rightarrow> ret bs
          | None \<Rightarrow> bnd (getrandbits 16) (\<lambda>n. lift (\<lambda>_. to_bytes n))) (\<lambda>sid.
     bnd (assign (\<lambda>s. s\<lparr>signer_id := sid\<rparr>)) (\<lambda>_.
     bnd (case x1_arg of None \<Rightarrow> (\<lambda>s. randrange 0 (q s) s) | Some v \<Rightarrow> ret v) (\<lambda>v1.
     bnd (assign (\<lambda>s. s\<lparr>x1 := v1\<rparr>)) (\<lambda>_.
     bnd (case x2_arg of None \<Rightarrow> (\<lambda>s. randrange 1 (q s) s) | Some v \<Rightarrow> ret v) (\<lambda>v2.
     bnd (assign (\<lambda>s. s\<lparr>x2 := v2\<rparr>)) (\<lambda>_.
     if rgx1 \<noteq> None \<and> rgx2 = None then raise TypeError
     else if rgx1 = None \<and> rgx2 \<noteq> None then raise TypeError
     else
       bnd (if rgx1 \<noteq> None then process_one None rgx1 rgx2 None None False else ret ()) (\<lambda>_.
       bnd (if secret_arg \<noteq> None then set_secret secret_arg else ret ()) (\<lambda>_.
       if rA \<noteq> None then process_two None rA None False else ret ()))))))))"

definition JPAKE ::
  "int option \<Rightarrow> int option \<Rightarrow> secret_value option \<Rightarrow> int option \<Rightarrow> int option \<Rightarrow> int option
     \<Rightarrow> parameters \<Rightarrow> str_or_bytes option
     \<Rightarrow> (int \<Rightarrow> int \<Rightarrow> int option \<Rightarrow> bytes \<Rightarrow> error + int)
     \<Rightarrow> (nat \<Rightarrow> nat) \<Rightarrow> error + session" where
  "JPAKE x1_arg x2_arg secret_arg rgx1 rgx2 rA params signer_arg hash tape =
     (case init_body x1_arg x2_arg secret_arg rgx1 rgx2 rA signer_arg (blank params hash tape) of
        (Inl e, _) \<Rightarrow> Inl e
      | (Inr _, s) \<Rightarrow> Inr s)"

section \<open>Scenarios\<close>

text \<open>Running a method on a session object; an exception ends the scenario.\<close>

definition run :: "'a action \<Rightarrow> session \<Rightarrow> error + ('a \<times> session)" where
  "run m s = (case m s of (Inl e, _) \<Rightarrow> Inl e | (Inr v, s') \<Rightarrow> Inr (v, s'))"

text \<open>
  The exchange of \<open>test_basic\<close> in \<open>tests/test_jpake.py\<close>, for two sessions already
  constructed:
  \<^verbatim>\<open>
  alice.process_one(bob.one()), bob.process_one(alice.one())
  alice.process_two(bob.two()), bob.process_two(alice.two())
  \<close>
  followed by the reads of \<open>alice.K\<close> and \<open>bob.K\<close>, which are returned.
\<close>

definition test_basic :: "session \<Rightarrow> session \<Rightarrow> error + (int \<times> int)" where
  "test_basic alice bob =
     then_e (run one bob) (\<lambda>(bob_one, bob1).
     then_e (run (process_one (Some bob_one) None None None None True) alice) (\<lambda>(_, alice1).
     then_e (run one alice1) (\<lambda>(alice_one, alice2).
     then_e (run (process_one (Some alice_one) None None None None True) bob1) (\<lambda>(_, bob2).
     then_e (run two bob2) (\<lambda>(bob_two, bob3).
     then_e (run (process_two (Some bob_two) None None True) alice2) (\<lambda>(_, alice3).
     then_e (run two alice3) (\<lambda>(alice_two, alice4).
     then_e (run (process_two (Some alice_two) None None True) bob3) (\<lambda>(_, bob4).
     then_e (run K alice4) (\<lambda>(k_alice, _).
     then_e (run K bob4) (\<lambda>(k_bob, _).
     Inr (k_alice, k_bob)))))))))))"

text \<open>Calling a producer twice in a row, keeping both results.\<close>

definition twice :: "'a action \<Rightarrow> session \<Rightarrow> error + ('a \<times> 'a)" where
  "twice m s =
     then_e (run m s) (\<lambda>(r1, s1).
     then_e (run m s1) (\<lambda>(r2, _).
     Inr (r1, r2)))"

text \<open>
  The part of a session that is neither the position of the random source nor one of the
  four lazily computed round-one slots.
\<close>

definition core :: "session \<Rightarrow> session" where
  "core s = s\<lparr>rng_pos := 0, slot_gx1 := None, slot_gx2 := None,
              slot_zkp_x1 := None, slot_zkp_x2 := None\<rparr>"

text \<open>
  Concrete arguments for the constructor: the subgroup of order 11 of the integers
  modulo 23 generated by 2, a challenge hash that always returns 1, and a random source
  whose raw draws are 0, 1, 2, ...
\<close>

definition small_group :: parameters where
  "small_group = \<lparr>par_p = 23, par_g = 2, par_q = 11\<rparr>"

definition const_hash :: "int \<Rightarrow> int \<Rightarrow> int option \<Rightarrow> bytes \<Rightarrow> error + int" where
  "const_hash gen gr gx signer = Inr 1"

definition count_tape :: "nat \<Rightarrow> nat" where
  "count_tape n = n"

text \<open>
  \<open>JPAKE(x1=a, x2=b, secret=sec, remote_gx1=r1, remote_gx2=r2, parameters=small_group,
  signer_id=sid, zkp_hash_function=const_hash, random=count_tape)\<close>, and the object it
  leaves when it does not raise.
\<close>

definition demo ::
  "int \<Rightarrow> int \<Rightarrow> int option \<Rightarrow> int option \<Rightarrow> int option \<Rightarrow> bytes \<Rightarrow> error + session" where
  "demo a b sec r1 r2 sid =
     JPAKE (Some a) (Some b) (map_option SecretInt sec) r1 r2 None small_group
       (Some (Bytes sid)) const_hash count_tape"

definition demo_session ::
  "int \<Rightarrow> int \<Rightarrow> int option \<Rightarrow> int option \<Rightarrow> int option \<Rightarrow> bytes \<Rightarrow> session" where
  "demo_session a b sec r1 r2 sid =
     snd (init_body (Some a) (Some b) (map_option SecretInt sec) r1 r2 None (Some (Bytes sid))
            (blank small_group const_hash count_tape))"

text \<open>
  Three such objects: \<open>alice\<close> and \<open>bob\<close> freshly constructed with the secret 5, and
  \<open>alice_resumed\<close> constructed with Bob's round-one values \<open>2 ^ 4 mod 23 = 16\<close> and
  \<open>2 ^ 7 mod 23 = 13\<close> as \<open>remote_gx1\<close> and \<open>remote_gx2\<close>.
\<close>

definition alice :: session where
  "alice = demo_session 3 5 (Some 5) None None [97]"

definition bob :: session where
  "bob = demo_session 4 7 (Some 5) None None [98]"

definition alice_resumed :: session where
  "alice_resumed = demo_session 3 5 (Some 5) (Some 16) (Some 13) [97]"

text \<open>
  \<open>alice_default\<close> is constructed like \<open>alice\<close> but keeps the default challenge hash.
  The digest of \<open>hashlib\<close> is outside the module; here it is stood in for by the first
  20 bytes of the transcript.
\<close>

definition alice_default :: session where
  "alice_default =
     snd (init_body (Some 3) (Some 5) (Some (SecretInt 5)) None None None (Some (Bytes [97]))
            (blank small_group (default_zkp_hash_fn (take 20)) count_tape))"

text \<open>
  A round-two dictionary whose proof does not verify: Bob's value \<open>A = 2\<close> with the
  commitment 0.
\<close>

definition forged_two :: two_dict where
  "forged_two = \<lparr>m_A = 2, m_zkp_A = \<lparr>zkp_gr = 0, zkp_b = 0, zkp_id = [98]\<rparr>\<rparr>"

section \<open>Basic facts\<close>

lemma bnd_lift: "bnd (lift f) k s = (case f s of Inl e \<Rightarrow> (Inl e, s) | Inr v \<Rightarrow> k v s)"
  by (simp add: bnd_def lift_def split: sum.splits)

lemma bnd_assign: "bnd (assign f) k s = k () (f s)"
  by (simp add: bnd_def assign_def)

lemma bnd_ret: "bnd (ret v) k s = k v s"
  by (simp add: bnd_def ret_def)

lemma bnd_raise: "bnd (raise e) k s = (Inl e, s)"
  by (simp add: bnd_def raise_def)

lemma bnd_if: "bnd (if c then m else n) k s = (if c then bnd m k s else bnd n k s)"
  by simp

lemma bnd_assoc: "bnd (bnd m f) k = bnd m (\<lambda>v. bnd (f v) k)"
  by (rule ext) (simp add: bnd_def split: prod.splits sum.splits)

lemmas monad_simps =
  bnd_assoc bnd_lift bnd_assign bnd_ret bnd_raise bnd_if ret_def raise_def assign_def

lemmas demo_defs =
  demo_def demo_session_def JPAKE_def init_body_def blank_def small_group_def const_hash_def
  count_tape_def alice_def bob_def alice_resumed_def forged_two_def

lemmas all_defs =
  ret_def raise_def lift_def assign_def bnd_def read_slot_def randrange_def getrandbits_def
  zkp_def verify_zkp_def secret_def secret_to_int_def set_secret_def compute_one_def
  lazy_one_def gx1_def gx2_def zkp_x1_def zkp_x2_def one_def remote_one_def remote_gx1_def
  remote_gx2_def opt_mod_def opt_int_def unpack_one_def process_one_def compute_two_def
  as_attribute_error_def lazy_two_def A_def zkp_A_def two_def remote_two_def remote_A_def
  unpack_two_def process_two_def compute_three_def K_def then_e_def py_mod_def pypow_def
  run_def twice_def test_basic_def

text \<open>The constructor returns the three example objects.\<close>

lemma alice_constructed: "demo 3 5 (Some 5) None None [97] = Inr alice"
  by (simp add: demo_defs all_defs)

lemma bob_constructed: "demo 4 7 (Some 5) None None [98] = Inr bob"
  by (simp add: demo_defs all_defs)

lemma alice_resumed_constructed:
  "demo 3 5 (Some 5) (Some 16) (Some 13) [97] = Inr alice_resumed"
  by (simp add: demo_defs all_defs)

subsection \<open>Arithmetic and exceptions of the helpers\<close>


text \<open>
  \<open>_to_bytes\<close> never raises on a non-negative number, and its first byte is zero whenever
  the bit length is a multiple of 8.
\<close>

lemma bit_length_upper: "0 \<le> n \<Longrightarrow> n < 2 ^ bit_length n"
proof (induction n rule: bit_length.induct)
  case (1 n)
  show ?case
  proof (cases "n = 0")
    case True
    then show ?thesis by simp
  next
    case False
    with "1.prems" have pos: "0 < n" by simp
    then have "\<bar>n\<bar> div 2 < 2 ^ bit_length (\<bar>n\<bar> div 2)"
      using "1.IH" [OF False] by simp
    with pos have "n div 2 < 2 ^ bit_length (n div 2)"
      by simp
    then have "n < 2 * 2 ^ bit_length (n div 2)"
      by linarith
    with False pos show ?thesis
      by (subst bit_length.simps) simp
  qed
qed

lemma two_power_eight: "(2::int) ^ (8 * k) = 256 ^ k"
proof -
  have "(2::int) ^ (8 * k) = (2 ^ 8) ^ k"
    by (rule power_mult)
  then show ?thesis
    by simp
qed

lemma to_bytes_total:
  assumes "0 \<le> n"
  shows "to_bytes n =
           Inr (map (\<lambda>i. word_of_int (n div 256 ^ (bit_length n div 8 - i)))
                  [0..<bit_length n div 8 + 1])"
proof -
  have "bit_length n \<le> 8 * (bit_length n div 8 + 1)"
    by presburger
  then have "(2::int) ^ bit_length n \<le> 2 ^ (8 * (bit_length n div 8 + 1))"
    by (rule power_increasing) simp
  also have "\<dots> = 256 ^ (bit_length n div 8 + 1)"
    by (rule two_power_eight)
  finally have "n < 256 ^ (bit_length n div 8 + 1)"
    using bit_length_upper [OF assms] by linarith
  with assms show ?thesis
    by (simp add: to_bytes_def int_to_bytes_def)
qed

lemma to_bytes_zero_byte:
  assumes "0 \<le> n" and "bit_length n mod 8 = 0"
  shows "\<exists>bs. to_bytes n = Inr (0 # bs) \<and> length bs = bit_length n div 8"
proof -
  have "8 * (bit_length n div 8) = bit_length n"
    using assms(2) by presburger
  then have "(2::int) ^ bit_length n = 2 ^ (8 * (bit_length n div 8))"
    by simp
  also have "\<dots> = 256 ^ (bit_length n div 8)"
    by (rule two_power_eight)
  finally have "n < 256 ^ (bit_length n div 8)"
    using bit_length_upper [OF assms(1)] by linarith
  with assms(1) have z: "n div 256 ^ (bit_length n div 8) = 0"
    by simp
  have "[0..<bit_length n div 8 + 1] = 0 # [1..<bit_length n div 8 + 1]"
    by (simp add: upt_rec)
  with z show ?thesis
    by (simp add: to_bytes_total [OF assms(1)])
qed

lemma pascal_short:
  assumes "length bs < 256"
  shows "pascal bs = Inr (0 # word_of_int (int (length bs)) # bs)"
proof -
  have "[0..<2] = [0, Suc 0]"
    by (simp add: upt_rec)
  with assms show ?thesis
    by (simp add: pascal_def int_to_bytes_def then_e_def)
qed


lemma process_two_unverified_dict:
  assumes "\<not> waiting_one s" and "waiting_two s"
  shows "process_two (Some d) None None False s =
           (Inr (), s\<lparr>slot_remote_A := Some (m_A d), slot_remote_zkp_A := Some (m_zkp_A d),
                       waiting_two := False\<rparr>)"
  using assms by (simp add: process_two_def monad_simps lift_def unpack_two_def)

lemma pypow_not_oos [simp]: "pypow b e m \<noteq> Inl OutOfSequenceError"
  by (simp add: pypow_def split: option.split)

lemma py_mod_not_oos [simp]: "py_mod a m \<noteq> Inl OutOfSequenceError"
  by (simp add: py_mod_def)

lemma opt_int_not_oos [simp]: "opt_int a \<noteq> Inl OutOfSequenceError"
  by (simp add: opt_int_def split: option.split)

lemma K_after_two:
  assumes "\<not> waiting_two s" and "slot_K s = None"
  shows "fst (K s) =
     (if waiting_one s then Inl AttributeError
      else if waiting_secret s then Inl AttributeError
      else case slot_secret s of None \<Rightarrow> Inl AttributeError | Some sec \<Rightarrow>
        then_e (then_e (opt_int (slot_remote_gx2 s)) (\<lambda>v. pypow v (x2 s * (q s - sec)) (p s))) (\<lambda>bottom.
        then_e (then_e (opt_int (slot_remote_A s)) (\<lambda>v. py_mod (v * bottom) (p s))) (\<lambda>inner.
        pypow inner (x2 s) (p s))))"
  using assms
  by (simp add: K_def compute_three_def as_attribute_error_def bnd_def lift_def assign_def
      remote_gx2_def remote_one_def remote_A_def remote_two_def secret_def raise_def read_slot_def
      then_e_def split: sum.split option.split)


subsection \<open>What the lazy round-one computation may change\<close>

lemma bnd_core:
  assumes "\<And>s. core (snd (m s)) = core s" and "\<And>v s. core (snd (f v s)) = core s"
  shows "core (snd (bnd m f s)) = core s"
proof (cases "m s")
  case (Pair r s')
  from assms(1) [of s] Pair have "core s' = core s"
    by simp
  with assms(2) Pair show ?thesis
    by (cases r) (simp_all add: bnd_def)
qed

lemma lift_core: "core (snd (lift f s)) = core s"
  by (simp add: lift_def)

lemma ret_core: "core (snd (ret v s)) = core s"
  by (simp add: ret_def)

lemma raise_core: "core (snd (raise e s)) = core s"
  by (simp add: raise_def)

lemma read_slot_core: "core (snd (read_slot f s)) = core s"
  by (simp add: read_slot_def split: option.split)

lemma randrange_core: "core (snd (randrange lo hi s)) = core s"
  by (simp add: randrange_def core_def)

lemma zkp_core: "core (snd (zkp G e gx s)) = core s"
  unfolding zkp_def
  by (intro bnd_core lift_core ret_core randrange_core) (simp_all add: lift_core ret_core split: option.split)

lemma compute_one_core: "core (snd (compute_one s)) = core s"
  unfolding compute_one_def
  by (intro bnd_core lift_core zkp_core) (simp_all add: assign_def core_def)

lemma lazy_one_core: "core (snd (lazy_one slot s)) = core s"
  unfolding lazy_one_def
  by (simp add: ret_core bnd_core compute_one_core read_slot_core split: option.split)

lemma lazy_one_cached: "slot s = Some v \<Longrightarrow> lazy_one slot s = (Inr v, s)"
  by (simp add: lazy_one_def ret_def)


lemma process_one_failure_same:
  "case process_one d a b z1 z2 v s of (Inl e, s') \<Rightarrow> s' = s | (Inr u, s') \<Rightarrow> True"
  by (simp add: process_one_def monad_simps lift_def split: sum.split prod.split)

lemma set_secret_failure_same:
  "case set_secret sv s of (Inl e, s') \<Rightarrow> s' = s | (Inr u, s') \<Rightarrow> True"
  by (simp add: set_secret_def monad_simps split: option.split)

lemma commit_core:
  assumes "\<And>t. core (snd (m t)) = core t" and "\<And>v t. fst (k v t) = Inr ()"
    and "fst (bnd m k s) = Inl e"
  shows "core (snd (bnd m k s)) = core s"
proof (cases "m s")
  case (Pair r s')
  from assms(1) [of s] Pair have c: "core s' = core s"
    by simp
  show ?thesis
  proof (cases r)
    case (Inl e')
    with Pair c show ?thesis
      by (simp add: bnd_def)
  next
    case (Inr w)
    with Pair assms(2) [of w s'] assms(3) show ?thesis
      by (simp add: bnd_def)
  qed
qed

lemma commit_same:
  assumes "snd (m s) = s" and "\<And>v t. fst (k v t) = Inr ()"
    and "fst (bnd m k s) = Inl e"
  shows "snd (bnd m k s) = s"
proof (cases "m s")
  case (Pair r s')
  with assms(1) have c: "s' = s"
    by simp
  show ?thesis
  proof (cases r)
    case (Inl e')
    with Pair c show ?thesis
      by (simp add: bnd_def)
  next
    case (Inr w)
    with Pair assms(2) [of w s'] assms(3) show ?thesis
      by (simp add: bnd_def)
  qed
qed

lemma store_two_succeeds:
  "fst (bnd (assign f1) (\<lambda>_. bnd (assign f2) (\<lambda>_. assign f3)) t) = Inr ()"
  by (simp add: bnd_def assign_def)

lemma check_two_core:
  "core (snd ((if v then
                 bnd gx1 (\<lambda>v1.
                 bnd gx2 (\<lambda>v2.
                 bnd (lift (f1 v1 v2)) (\<lambda>u.
                 bnd (lift f2) (\<lambda>rg1.
                 bnd (lift (f3 u rg1)) (\<lambda>generator.
                 lift (f4 generator))))))
               else ret ()) t)) = core t"
  by (simp add: ret_core gx1_def gx2_def bnd_core lazy_one_core lift_core)

lemma check_two_same:
  assumes "\<not> v \<or> slot_gx1 t \<noteq> None \<and> slot_gx2 t \<noteq> None"
  shows "snd ((if v then
                 bnd gx1 (\<lambda>v1.
                 bnd gx2 (\<lambda>v2.
                 bnd (lift (f1 v1 v2)) (\<lambda>u.
                 bnd (lift f2) (\<lambda>rg1.
                 bnd (lift (f3 u rg1)) (\<lambda>generator.
                 lift (f4 generator))))))
               else ret ()) t) = t"
proof (cases v)
  case False
  then show ?thesis
    by (simp add: ret_def)
next
  case True
  with assms obtain a b where "slot_gx1 t = Some a" and "slot_gx2 t = Some b"
    by auto
  then have "gx1 t = (Inr a, t)" and "gx2 t = (Inr b, t)"
    by (simp_all add: gx1_def gx2_def lazy_one_cached)
  with True show ?thesis
    by (simp add: bnd_def lift_def split: sum.split)
qed

lemma process_two_failure_core:
  assumes "fst (process_two d ra rz v s) = Inl e"
  shows "core (snd (process_two d ra rz v s)) = core s"
proof (cases "waiting_one s \<or> \<not> waiting_two s")
  case True
  then show ?thesis
    by (auto simp: process_two_def raise_def)
next
  case False
  show ?thesis
  proof (cases "unpack_two d ra rz")
    case (Inl e')
    with False show ?thesis
      by (simp add: process_two_def bnd_lift)
  next
    case (Inr az)
    obtain a z where az: "az = (a, z)"
      by (cases az)
    from False Inr az assms show ?thesis
      unfolding process_two_def
      by (simp add: bnd_lift split del: if_split) (erule commit_core [rotated 2], rule check_two_core, rule store_two_succeeds)
  qed
qed

lemma process_two_failure_same:
  assumes "fst (process_two d ra rz v s) = Inl e"
    and "\<not> v \<or> slot_gx1 s \<noteq> None \<and> slot_gx2 s \<noteq> None"
  shows "snd (process_two d ra rz v s) = s"
proof (cases "waiting_one s \<or> \<not> waiting_two s")
  case True
  then show ?thesis
    by (auto simp: process_two_def raise_def)
next
  case False
  show ?thesis
  proof (cases "unpack_two d ra rz")
    case (Inl e')
    with False show ?thesis
      by (simp add: process_two_def bnd_lift)
  next
    case (Inr az)
    obtain a z where az: "az = (a, z)"
      by (cases az)
    from False Inr az assms(1) show ?thesis
      unfolding process_two_def
      by (simp add: bnd_lift split del: if_split) (erule commit_same [rotated 2], rule check_two_same [OF assms(2)], rule store_two_succeeds)
  qed
qed

subsection \<open>What the successful calls of the exchange do\<close>

text \<open>
  Each lemma describes the session after a call that returned: \<open>one\<close> and \<open>two\<close> change
  the random source's position and the slots they compute, the consume operations store
  what they received.
\<close>

lemma bnd_lazy_one_cached: "slot s = Some v \<Longrightarrow> bnd (lazy_one slot) k s = k v s"
  by (simp add: bnd_def lazy_one_cached)

lemma one_ok:
  "case one s of
     (Inl e, t) \<Rightarrow> True
   | (Inr d, t) \<Rightarrow>
       t = s\<lparr>rng_pos := rng_pos t, slot_gx1 := Some (m_gx1 d), slot_gx2 := Some (m_gx2 d),
             slot_zkp_x1 := slot_zkp_x1 t, slot_zkp_x2 := slot_zkp_x2 t\<rparr> \<and>
       pypow (g s) (x1 s) (p s) = Inr (m_gx1 d) \<and>
       pypow (g s) (x2 s) (p s) = Inr (m_gx2 d)"
  by (simp add: one_def gx1_def gx2_def zkp_x1_def zkp_x2_def lazy_one_def read_slot_def
        compute_one_def zkp_def bnd_def lift_def ret_def assign_def randrange_def
        split: option.split sum.split prod.split)

lemma two_ok:
  assumes "slot_gx1 s = Some a"
  shows "case two s of
     (Inl e, t) \<Rightarrow> True
   | (Inr d, t) \<Rightarrow>
       t = s\<lparr>rng_pos := rng_pos t, slot_A := Some (m_A d), slot_zkp_A := slot_zkp_A t\<rparr> \<and>
       (\<exists>rg1 rg2 sec.
          slot_remote_gx1 s = Some rg1 \<and> slot_remote_gx2 s = Some rg2 \<and>
          slot_secret s = Some sec \<and> \<not> waiting_secret s \<and> \<not> waiting_one s \<and>
          pypow (a * rg1 mod p s * rg2 mod p s) (x2 s * sec mod p s) (p s) = Inr (m_A d))"
  using assms
  by (simp add: two_def A_def zkp_A_def lazy_two_def as_attribute_error_def compute_two_def
        remote_gx1_def remote_gx2_def remote_one_def secret_def raise_def opt_int_def then_e_def
        py_mod_def gx1_def lazy_one_def read_slot_def
        zkp_def bnd_def lift_def ret_def assign_def randrange_def
        split: option.split sum.split prod.split)

lemma process_one_ok:
  "case process_one (Some d) None None None None True s of
     (Inl e, t) \<Rightarrow> True
   | (Inr u, t) \<Rightarrow>
       t = s\<lparr>slot_remote_gx1 := Some (m_gx1 d mod p s),
             slot_remote_gx2 := Some (m_gx2 d mod p s),
             slot_remote_zkp_x1 := Some (m_zkp_x1 d),
             slot_remote_zkp_x2 := Some (m_zkp_x2 d),
             waiting_one := False\<rparr> \<and> waiting_one s \<and> p s \<noteq> 0"
  by (simp add: process_one_def monad_simps lift_def unpack_one_def opt_mod_def py_mod_def
        split: sum.split)

lemma process_two_ok:
  assumes "slot_gx1 s = Some a" and "slot_gx2 s = Some b"
  shows "case process_two (Some d) None None True s of
     (Inl e, t) \<Rightarrow> True
   | (Inr u, t) \<Rightarrow>
       t = s\<lparr>slot_remote_A := Some (m_A d), slot_remote_zkp_A := Some (m_zkp_A d),
             waiting_two := False\<rparr> \<and> \<not> waiting_one s \<and> waiting_two s"
  using assms
  by (simp add: process_two_def bnd_lazy_one_cached monad_simps lift_def unpack_two_def
        gx1_def gx2_def split: sum.split)


lemma one_okD:
  assumes "one s = (Inr d, t)"
  shows "\<exists>n z1 z2. t = s\<lparr>rng_pos := n, slot_gx1 := Some (m_gx1 d), slot_gx2 := Some (m_gx2 d),
                          slot_zkp_x1 := z1, slot_zkp_x2 := z2\<rparr>"
    and "pypow (g s) (x1 s) (p s) = Inr (m_gx1 d)"
    and "pypow (g s) (x2 s) (p s) = Inr (m_gx2 d)"
  using one_ok [of s] assms by auto

lemma two_okD:
  assumes "two s = (Inr d, t)" and "slot_gx1 s = Some a"
  shows "\<exists>n z. t = s\<lparr>rng_pos := n, slot_A := Some (m_A d), slot_zkp_A := z\<rparr>"
    and "\<exists>rg1 rg2 sec.
          slot_remote_gx1 s = Some rg1 \<and> slot_remote_gx2 s = Some rg2 \<and>
          slot_secret s = Some sec \<and> \<not> waiting_secret s \<and> \<not> waiting_one s \<and>
          pypow (a * rg1 mod p s * rg2 mod p s) (x2 s * sec mod p s) (p s) = Inr (m_A d)"
  using two_ok [OF assms(2)] assms(1) by auto

lemma process_one_okD:
  assumes "process_one (Some d) None None None None True s = (Inr u, t)"
  shows "t = s\<lparr>slot_remote_gx1 := Some (m_gx1 d mod p s),
               slot_remote_gx2 := Some (m_gx2 d mod p s),
               slot_remote_zkp_x1 := Some (m_zkp_x1 d),
               slot_remote_zkp_x2 := Some (m_zkp_x2 d),
               waiting_one := False\<rparr>"
    and "waiting_one s" and "p s \<noteq> 0"
  using process_one_ok [of d s] assms by auto

lemma process_two_okD:
  assumes "process_two (Some d) None None True s = (Inr u, t)"
    and "slot_gx1 s = Some a" and "slot_gx2 s = Some b"
  shows "t = s\<lparr>slot_remote_A := Some (m_A d), slot_remote_zkp_A := Some (m_zkp_A d),
               waiting_two := False\<rparr>"
    and "\<not> waiting_one s" and "waiting_two s"
  using process_two_ok [OF assms(2,3), of d] assms(1) by auto

lemma then_run_Inr:
  assumes "then_e (run m s) f = Inr r"
  obtains v t where "m s = (Inr v, t)" and "f (v, t) = Inr r"
  using assms by (auto simp: then_e_def run_def split: sum.splits prod.splits)

lemma gx1_ok:
  "case gx1 s of
     (Inl e, t) \<Rightarrow> True
   | (Inr a, t) \<Rightarrow>
       t = s\<lparr>rng_pos := rng_pos t, slot_gx1 := Some a, slot_gx2 := slot_gx2 t,
             slot_zkp_x1 := slot_zkp_x1 t, slot_zkp_x2 := slot_zkp_x2 t\<rparr>"
  by (simp add: gx1_def lazy_one_def read_slot_def compute_one_def zkp_def bnd_def lift_def
        ret_def assign_def randrange_def split: option.split sum.split prod.split)

lemma gx1_okD:
  assumes "gx1 s = (Inr a, t)"
  shows "\<exists>n b z1 z2. t = s\<lparr>rng_pos := n, slot_gx1 := Some a, slot_gx2 := b,
                            slot_zkp_x1 := z1, slot_zkp_x2 := z2\<rparr>"
  using gx1_ok [of s] assms by auto

lemma compute_two_after_gx1:
  assumes "gx1 s = (Inr a, t)" and "\<not> waiting_one s" and "\<not> waiting_secret s"
  shows "compute_two s = compute_two t"
proof -
  from gx1_okD [OF assms(1)] obtain n b z1 z2 where
    t: "t = s\<lparr>rng_pos := n, slot_gx1 := Some a, slot_gx2 := b,
               slot_zkp_x1 := z1, slot_zkp_x2 := z2\<rparr>"
    by blast
  have c: "slot_gx1 t = Some a"
    by (simp add: t)
  have l: "\<And>k. bnd gx1 k s = k a t"
    using assms(1) by (simp add: bnd_def)
  have r: "\<And>k. bnd gx1 k t = k a t"
    using c by (simp add: gx1_def bnd_lazy_one_cached)
  have f: "waiting_one t = waiting_one s" "waiting_secret t = waiting_secret s"
    "slot_remote_gx1 t = slot_remote_gx1 s" "slot_remote_gx2 t = slot_remote_gx2 s"
    by (simp_all add: t)
  show ?thesis
    using assms(2,3)
    by (simp add: compute_two_def bnd_lift l r f raise_def remote_gx1_def remote_gx2_def
          remote_one_def)
qed

lemma two_after_gx1:
  assumes "gx1 s = (Inr a, t)" and "\<not> waiting_one s" and "\<not> waiting_secret s"
  shows "two s = two t"
  by (simp add: two_def bnd_def compute_two_after_gx1 [OF assms])

lemma two_okD_general:
  assumes "two s = (Inr d, t)"
  shows "\<exists>a rg1 rg2 sec.
          slot_gx1 t = Some a \<and> (slot_gx1 s = None \<or> slot_gx1 s = Some a) \<and>
          slot_remote_gx1 s = Some rg1 \<and> slot_remote_gx2 s = Some rg2 \<and>
          slot_secret s = Some sec \<and>
          pypow (a * rg1 mod p s * rg2 mod p s) (x2 s * sec mod p s) (p s) = Inr (m_A d) \<and>
          slot_remote_gx1 t = Some rg1 \<and> slot_remote_gx2 t = Some rg2 \<and>
          slot_secret t = Some sec \<and> p t = p s \<and> x2 t = x2 s"
proof -
  have w: "\<not> waiting_one s" "\<not> waiting_secret s"
    using assms by (auto simp: two_def compute_two_def bnd_def raise_def split: if_splits)
  have "\<exists>a u. gx1 s = (Inr a, u)"
  proof (cases "gx1 s")
    case (Pair r u)
    show ?thesis
    proof (cases r)
      case (Inl e)
      with Pair have "\<And>k. bnd gx1 k s = (Inl e, u)"
        by (simp add: bnd_def)
      with w have "compute_two s = (Inl e, u)"
        by (simp add: compute_two_def bnd_lift remote_gx1_def remote_gx2_def remote_one_def)
      then have "two s = (Inl e, u)"
        by (simp add: two_def bnd_def)
      with assms show ?thesis
        by simp
    next
      case (Inr a)
      with Pair show ?thesis
        by simp
    qed
  qed
  then obtain a u where gu: "gx1 s = (Inr a, u)"
    by blast
  from gx1_okD [OF gu] obtain n b z1 z2 where
    u: "u = s\<lparr>rng_pos := n, slot_gx1 := Some a, slot_gx2 := b,
               slot_zkp_x1 := z1, slot_zkp_x2 := z2\<rparr>"
    by blast
  have cu: "slot_gx1 u = Some a"
    by (simp add: u)
  have old: "slot_gx1 s = None \<or> slot_gx1 s = Some a"
    using gu by (cases "slot_gx1 s") (simp_all add: gx1_def lazy_one_cached)
  from assms have tu: "two u = (Inr d, t)"
    by (simp add: two_after_gx1 [OF gu w])
  from two_okD [OF tu cu] obtain m z rg1 rg2 sec where
    t: "t = u\<lparr>rng_pos := m, slot_A := Some (m_A d), slot_zkp_A := z\<rparr>"
    and v: "slot_remote_gx1 u = Some rg1" "slot_remote_gx2 u = Some rg2"
      "slot_secret u = Some sec"
      "pypow (a * rg1 mod p u * rg2 mod p u) (x2 u * sec mod p u) (p u) = Inr (m_A d)"
    by blast
  from v old show ?thesis
    by (simp add: t u)
qed

section \<open>Proof verification\<close>



lemma invmod_correct:
  assumes "0 < m" and "invmod a m = Some i"
  shows "a * i mod m = 1 mod m"
proof -
  define x where "x = a mod m"
  define u v where "u = fst (bezw (nat x) (nat m))" and "v = snd (bezw (nat x) (nat m))"
  from assms(2) have g: "gcd a m = 1" and i: "i = u mod m"
    by (simp_all add: invmod_def u_def x_def split: if_splits)
  have x0: "0 \<le> x"
    using assms(1) by (simp add: x_def)
  have "gcd a m = gcd m x"
    unfolding x_def by (rule gcd_red_int)
  with g have "gcd m x = 1"
    by simp
  then have "gcd x m = 1"
    by (simp only: gcd.commute)
  moreover have "gcd (int (nat x)) (int (nat m)) = int (gcd (nat x) (nat m))"
    by (rule gcd_int_int_eq)
  ultimately have "int (gcd (nat x) (nat m)) = 1"
    using x0 assms(1) by simp
  with bezw_aux [of "nat x" "nat m"] have "u * x + v * m = 1"
    using x0 assms(1) by (simp add: u_def v_def)
  then have "u * x = 1 + (- v) * m"
    by simp
  then have "u * x mod m = (1 + (- v) * m) mod m"
    by simp
  also have "\<dots> = 1 mod m"
    by (rule mod_mult_self1)
  finally have ux: "u * x mod m = 1 mod m" .
  have "a * i mod m = a * u mod m"
    unfolding i by (rule mod_mult_right_eq)
  also have "\<dots> = x * u mod m"
    unfolding x_def by (rule mod_mult_left_eq [symmetric])
  also have "\<dots> = u * x mod m"
    by (simp only: mult.commute)
  finally show ?thesis
    using ux by simp
qed

lemma pypow_inverse:
  assumes "e < 0" and "pypow b e m = Inr r"
  shows "r * b ^ nat (- e) mod m = 1 mod m"
proof -
  from assms have m0: "m \<noteq> 0"
    by (auto simp: pypow_def split: if_splits)
  with assms obtain i where inv: "invmod b \<bar>m\<bar> = Some i" and r: "r = i ^ nat (- e) mod m"
    by (auto simp: pypow_def split: option.splits)
  from m0 have "b * i mod \<bar>m\<bar> = 1 mod \<bar>m\<bar>"
    by (intro invmod_correct [OF _ inv]) simp
  then have "\<bar>m\<bar> dvd b * i - 1"
    by (simp add: mod_eq_dvd_iff)
  then have "b * i mod m = 1 mod m"
    by (simp add: mod_eq_dvd_iff)
  then have "(b * i) ^ nat (- e) mod m = 1 mod m"
    by (metis power_mod power_one)
  moreover have "r * b ^ nat (- e) mod m = i ^ nat (- e) * b ^ nat (- e) mod m"
    unfolding r by (rule mod_mult_left_eq)
  moreover have "i ^ nat (- e) * b ^ nat (- e) = (b * i) ^ nat (- e)"
    by (simp add: power_mult_distrib mult.commute)
  ultimately show ?thesis
    by simp
qed

lemma alice_default_constructed:
  "JPAKE (Some 3) (Some 5) (Some (SecretInt 5)) None None None small_group (Some (Bytes [97]))
     (default_zkp_hash_fn (take 20)) count_tape = Inr alice_default"
  by (simp add: alice_default_def demo_defs all_defs)




section \<open>Sequencing\<close>

text \<open>
  Claim C5, as stated, asks for \<open>OutOfSequenceError\<close> when \<open>K\<close> is read before round two
  is consumed.  The property \<open>K\<close> catches the \<open>OutOfSequenceError\<close> of
  \<open>_compute_three\<close> and raises \<open>AttributeError\<close> instead: on the freshly constructed
  \<open>alice\<close> the read of \<open>K\<close> raises \<open>AttributeError\<close>.
\<close>

theorem K_before_round_two_counterexample:
  "waiting_two alice \<and> fst (K alice) = Inl AttributeError
   \<and> fst (K alice) \<noteq> Inl OutOfSequenceError"
  by (simp add: demo_defs all_defs)

text \<open>
  Claim C5, amended.  \<open>two\<close> raises \<open>OutOfSequenceError\<close> when round one is not consumed
  or no secret is set; \<open>_compute_three\<close> raises \<open>OutOfSequenceError\<close> when round two is
  not consumed, and the property \<open>K\<close> (no key cached yet) turns it into
  \<open>AttributeError\<close>.  The session is unchanged in each case.
\<close>

theorem sequencing_guards:
  "(waiting_one s \<or> waiting_secret s \<longrightarrow> two s = (Inl OutOfSequenceError, s))
   \<and> (waiting_two s \<longrightarrow> compute_three s = (Inl OutOfSequenceError, s))
   \<and> (waiting_two s \<and> slot_K s = None \<longrightarrow> K s = (Inl AttributeError, s))"
  by (simp add: two_def compute_two_def compute_three_def K_def as_attribute_error_def
        bnd_def raise_def)

theorem sequencing_guards_witness:
  "waiting_one alice \<and> two alice = (Inl OutOfSequenceError, alice)
   \<and> \<not> waiting_one alice_resumed \<and> waiting_two alice_resumed \<and> slot_K alice_resumed = None
   \<and> compute_three alice_resumed = (Inl OutOfSequenceError, alice_resumed)
   \<and> K alice_resumed = (Inl AttributeError, alice_resumed)"
proof -
  have a: "waiting_one alice"
    by (simp add: demo_defs all_defs)
  have b: "\<not> waiting_one alice_resumed" "waiting_two alice_resumed"
    "slot_K alice_resumed = None"
    by (simp_all add: demo_defs all_defs)
  show ?thesis
    using a b sequencing_guards [of alice] sequencing_guards [of alice_resumed]
    by simp
qed

section \<open>Consuming round one\<close>

text \<open>
  Claim C8.  On a session that still awaits round one, over a modulus greater than 1,
  \<open>process_one\<close> raises \<open>ValueError\<close> whenever the received \<open>remote_gx2\<close> is congruent
  to 1 modulo \<open>p\<close>: with or without verification, whatever the proofs are, for keyword
  arguments and for a dictionary alike.  The session is unchanged, so \<open>waiting_one\<close>
  stays set.
\<close>

theorem process_one_rejects_one:
  assumes "waiting_one s" and "1 < p s"
  shows "(b mod p s = 1 \<longrightarrow>
            process_one None (Some a) (Some b) z1 z2 v s = (Inl ValueError, s))
       \<and> (m_gx2 d mod p s = 1 \<longrightarrow>
            process_one (Some d) None None None None v s = (Inl ValueError, s))"
  using assms
  by (simp add: process_one_def monad_simps lift_def unpack_one_def opt_mod_def py_mod_def)

theorem process_one_rejects_one_witness:
  "waiting_one alice \<and> 1 < p alice \<and> (24::int) mod p alice = 1
   \<and> process_one None (Some 16) (Some 24) None None True alice = (Inl ValueError, alice)
   \<and> process_one None (Some 16) (Some 24) None None False alice = (Inl ValueError, alice)
   \<and> process_one (Some \<lparr>m_gx1 = 16, m_zkp_x1 = \<lparr>zkp_gr = 1, zkp_b = 7, zkp_id = [98]\<rparr>,
                          m_gx2 = 1, m_zkp_x2 = \<lparr>zkp_gr = 1, zkp_b = 10, zkp_id = [98]\<rparr>\<rparr>)
        None None None None True alice = (Inl ValueError, alice)"
proof -
  have w: "waiting_one alice" and m: "1 < p alice"
    by (simp_all add: demo_defs all_defs)
  have r: "(24::int) mod p alice = 1"
    by (simp add: demo_defs all_defs)
  show ?thesis
    using w m r
      process_one_rejects_one [OF w m, of 24 16 None None True
        "\<lparr>m_gx1 = 16, m_zkp_x1 = \<lparr>zkp_gr = 1, zkp_b = 7, zkp_id = [98]\<rparr>,
          m_gx2 = 1, m_zkp_x2 = \<lparr>zkp_gr = 1, zkp_b = 10, zkp_id = [98]\<rparr>\<rparr>"]
      process_one_rejects_one [OF w m, of 24 16 None None False]
    by simp
qed



section \<open>Consuming round two\<close>



section \<open>Failed calls\<close>

text \<open>
  Claim C7, as stated, says that a failing \<open>process_two\<close> leaves every stored value as
  it was.  With verification enabled, \<open>process_two\<close> reads \<open>self.gx1\<close> and \<open>self.gx2\<close>
  before it checks the proof, and these properties compute and store the round-one values
  and proofs when they are not there yet.  On \<open>alice_resumed\<close>, which never produced
  round one, the forged message is rejected with \<open>InvalidProofError\<close>, and afterwards
  \<open>_gx1\<close> is set and two random numbers have been drawn.
\<close>

theorem process_two_failure_counterexample:
  "fst (process_two (Some forged_two) None None True alice_resumed) = Inl InvalidProofError
   \<and> slot_gx1 alice_resumed = None
   \<and> slot_gx1 (snd (process_two (Some forged_two) None None True alice_resumed)) = Some 8
   \<and> rng_pos alice_resumed = 0
   \<and> rng_pos (snd (process_two (Some forged_two) None None True alice_resumed)) = 2
   \<and> snd (process_two (Some forged_two) None None True alice_resumed) \<noteq> alice_resumed"
proof -
  have a: "slot_gx1 alice_resumed = None" and b: "rng_pos alice_resumed = 0"
    by (simp_all add: demo_defs all_defs)
  have c: "slot_gx1 (snd (process_two (Some forged_two) None None True alice_resumed)) = Some 8"
    by (simp add: demo_defs all_defs)
  have d: "rng_pos (snd (process_two (Some forged_two) None None True alice_resumed)) = 2"
    by (simp add: demo_defs all_defs)
  have e: "fst (process_two (Some forged_two) None None True alice_resumed) = Inl InvalidProofError"
    by (simp add: demo_defs all_defs)
  from a c have "snd (process_two (Some forged_two) None None True alice_resumed) \<noteq> alice_resumed"
    by auto
  with a b c d e show ?thesis
    by simp
qed

text \<open>
  Claim C7, amended.  When \<open>process_one\<close> or \<open>set_secret\<close> raises, the session is
  exactly as before the call.  When \<open>process_two\<close> raises, the gates, the secret, the
  stored remote values and the cached \<open>A\<close> and \<open>K\<close> are as before the call (everything
  but the random source's position and the four lazily computed round-one slots); and
  the whole session is as before when verification is off or \<open>_gx1\<close> and \<open>_gx2\<close> were
  already computed.
\<close>

theorem failed_call_leaves_state:
  "(fst (process_one d a b z1 z2 v s) = Inl e \<longrightarrow> snd (process_one d a b z1 z2 v s) = s)
   \<and> (fst (set_secret sv s) = Inl e \<longrightarrow> snd (set_secret sv s) = s)
   \<and> (fst (process_two d2 ra rz v s) = Inl e \<longrightarrow>
        core (snd (process_two d2 ra rz v s)) = core s
        \<and> (\<not> v \<or> slot_gx1 s \<noteq> None \<and> slot_gx2 s \<noteq> None \<longrightarrow>
             snd (process_two d2 ra rz v s) = s))"
proof (intro conjI impI)
  assume "fst (process_one d a b z1 z2 v s) = Inl e"
  with process_one_failure_same [where d = d and a = a and b = b and ?z1.0 = z1 and ?z2.0 = z2 and v = v and s = s]
  show "snd (process_one d a b z1 z2 v s) = s"
    by (cases "process_one d a b z1 z2 v s") simp
next
  assume "fst (set_secret sv s) = Inl e"
  with set_secret_failure_same [where sv = sv and s = s]
  show "snd (set_secret sv s) = s"
    by (cases "set_secret sv s") simp
next
  assume "fst (process_two d2 ra rz v s) = Inl e"
  then show "core (snd (process_two d2 ra rz v s)) = core s"
    by (rule process_two_failure_core)
next
  assume "fst (process_two d2 ra rz v s) = Inl e"
    and "\<not> v \<or> slot_gx1 s \<noteq> None \<and> slot_gx2 s \<noteq> None"
  then show "snd (process_two d2 ra rz v s) = s"
    by (rule process_two_failure_same)
qed

theorem failed_call_leaves_state_witness:
  "process_one None (Some 16) (Some 24) None None True alice = (Inl ValueError, alice)
   \<and> set_secret (Some (SecretInt 6)) alice = (Inl OutOfSequenceError, alice)
   \<and> fst (process_two (Some forged_two) None None True alice_resumed) = Inl InvalidProofError
   \<and> core (snd (process_two (Some forged_two) None None True alice_resumed)) = core alice_resumed
   \<and> slot_gx1 (snd (one alice_resumed)) \<noteq> None \<and> slot_gx2 (snd (one alice_resumed)) \<noteq> None
   \<and> process_two (Some forged_two) None None True (snd (one alice_resumed))
       = (Inl InvalidProofError, snd (one alice_resumed))"
proof -
  have a: "fst (process_one None (Some 16) (Some 24) None None True alice) = Inl ValueError"
    by (simp add: demo_defs all_defs)
  have b: "fst (set_secret (Some (SecretInt 6)) alice) = Inl OutOfSequenceError"
    by (simp add: demo_defs all_defs)
  have c: "fst (process_two (Some forged_two) None None True alice_resumed) = Inl InvalidProofError"
    by (simp add: demo_defs all_defs)
  have d: "slot_gx1 (snd (one alice_resumed)) \<noteq> None" "slot_gx2 (snd (one alice_resumed)) \<noteq> None"
    by (simp_all add: demo_defs all_defs)
  have f: "fst (process_two (Some forged_two) None None True (snd (one alice_resumed)))
             = Inl InvalidProofError"
    by (simp add: demo_defs all_defs)
  show ?thesis
    using a b c d f
      failed_call_leaves_state [of None "Some 16" "Some 24" None None True alice ValueError
        "Some (SecretInt 6)" "Some forged_two" None None]
      failed_call_leaves_state [of None "Some 16" "Some 24" None None True alice OutOfSequenceError
        "Some (SecretInt 6)" "Some forged_two" None None]
      failed_call_leaves_state [of None "Some 16" "Some 24" None None True alice_resumed
        InvalidProofError "Some (SecretInt 6)" "Some forged_two" None None]
      failed_call_leaves_state [of None "Some 16" "Some 24" None None True "snd (one alice_resumed)"
        InvalidProofError "Some (SecretInt 6)" "Some forged_two" None None]
    by (simp add: prod_eq_iff)
qed

section \<open>The default challenge hash\<close>

text \<open>
  Claim C3 asks for the minimal big-endian representation of the three numbers.
  \<open>_to_bytes\<close> takes \<open>bit_length // 8 + 1\<close> bytes, one more than the minimal
  \<open>(bit_length + 7) // 8\<close> whenever the bit length is a multiple of 8: 255, 128 and 32768
  get a leading zero byte (127 and 256 do not), and the transcript hashed for the generator
  255 starts with the length field 2 and the bytes 0, 255.
\<close>

theorem to_bytes_leading_zero:
  "to_bytes 255 = Inr [0, 255] \<and> to_bytes 128 = Inr [0, 128] \<and> to_bytes 32768 = Inr [0, 128, 0]
   \<and> to_bytes 127 = Inr [127] \<and> to_bytes 256 = Inr [1, 0]
   \<and> default_zkp_hash_fn sha1 255 1 (Some 1) [98] =
       Inr (from_bytes (sha1 ([0, 2, 0, 255] @ [0, 1, 1] @ [0, 1, 1] @ [0, 1, 98])))"
proof -
  have a: "to_bytes 255 = Inr [0, 255]" and b: "to_bytes 128 = Inr [0, 128]"
    and c: "to_bytes 32768 = Inr [0, 128, 0]" and d: "to_bytes 127 = Inr [127]"
    and e: "to_bytes 256 = Inr [1, 0]" and f: "to_bytes 1 = Inr [1]"
    by code_simp+
  have "default_zkp_hash_fn sha1 255 1 (Some 1) [98] =
       Inr (from_bytes (sha1 ([0, 2, 0, 255] @ [0, 1, 1] @ [0, 1, 1] @ [0, 1, 98])))"
    by (simp add: default_zkp_hash_fn_def opt_to_bytes_def a f pascal_short then_e_def)
  with a b c d e show ?thesis
    by simp
qed

section \<open>Producing a round twice\<close>

text \<open>
  Claim C4 asks for identical output when \<open>one\<close> or \<open>two\<close> is called twice.  Both
  methods call \<open>_compute_one\<close> and \<open>_compute_two\<close> unconditionally, which draw new
  random numbers and overwrite the stored proofs: with a random source that returns
  0, 1, 2, ... the two results of \<open>one\<close> on \<open>alice\<close>, and of \<open>two\<close> on \<open>alice_resumed\<close>,
  carry different proofs.
\<close>

theorem producers_recompute:
  "twice one alice =
     Inr (\<lparr>m_gx1 = 8, m_zkp_x1 = \<lparr>zkp_gr = 1, zkp_b = 8, zkp_id = [97]\<rparr>,
            m_gx2 = 9, m_zkp_x2 = \<lparr>zkp_gr = 2, zkp_b = 7, zkp_id = [97]\<rparr>\<rparr>,
          \<lparr>m_gx1 = 8, m_zkp_x1 = \<lparr>zkp_gr = 4, zkp_b = 10, zkp_id = [97]\<rparr>,
            m_gx2 = 9, m_zkp_x2 = \<lparr>zkp_gr = 8, zkp_b = 9, zkp_id = [97]\<rparr>\<rparr>)
   \<and> twice two alice_resumed =
     Inr (\<lparr>m_A = 18, m_zkp_A = \<lparr>zkp_gr = 18, zkp_b = 0, zkp_id = [97]\<rparr>\<rparr>,
          \<lparr>m_A = 18, m_zkp_A = \<lparr>zkp_gr = 6, zkp_b = 1, zkp_id = [97]\<rparr>\<rparr>)"
  by (simp add: demo_defs all_defs)

text \<open>
  What stays the same: the numbers \<open>gx1\<close>, \<open>gx2\<close> and \<open>A\<close> of the two results.
\<close>

lemma two_twice_same_A:
  assumes "twice two s = Inr (d1, d2)"
  shows "m_A d1 = m_A d2"
proof -
  from assms obtain t u where 1: "two s = (Inr d1, t)" and 2: "two t = (Inr d2, u)"
    by (auto simp: twice_def then_e_def run_def split: sum.splits prod.splits)
  from two_okD_general [OF 1] obtain a rg1 rg2 sec where
    f: "slot_gx1 t = Some a" "slot_remote_gx1 t = Some rg1" "slot_remote_gx2 t = Some rg2"
      "slot_secret t = Some sec" "p t = p s" "x2 t = x2 s"
    and v1: "pypow (a * rg1 mod p s * rg2 mod p s) (x2 s * sec mod p s) (p s) = Inr (m_A d1)"
    by blast
  from two_okD(2) [OF 2 f(1)] f v1 show ?thesis
    by auto
qed

lemma one_twice_same_gx:
  assumes "twice one s = Inr (d1, d2)"
  shows "m_gx1 d1 = m_gx1 d2 \<and> m_gx2 d1 = m_gx2 d2"
proof -
  from assms obtain t u where 1: "one s = (Inr d1, t)" and 2: "one t = (Inr d2, u)"
    by (auto simp: twice_def then_e_def run_def split: sum.splits prod.splits)
  from one_okD [OF 1] obtain n z1 z2 where
    t: "t = s\<lparr>rng_pos := n, slot_gx1 := Some (m_gx1 d1), slot_gx2 := Some (m_gx2 d1),
               slot_zkp_x1 := z1, slot_zkp_x2 := z2\<rparr>"
    and v: "pypow (g s) (x1 s) (p s) = Inr (m_gx1 d1)" "pypow (g s) (x2 s) (p s) = Inr (m_gx2 d1)"
    by blast
  from one_okD(2,3) [OF 2] v show ?thesis
    by (simp add: t)
qed

section \<open>Unverified dictionaries\<close>

text \<open>
  Claim C6 asks every consume operation to reject a dictionary passed with
  \<open>verify=False\<close>.  \<open>process_one\<close> does (\<open>ValueError\<close>, see \<open>unpack_one\<close>), but
  \<open>process_two\<close> has no such check: on \<open>alice_resumed\<close> the forged round-two dictionary,
  which verification rejects, is stored and the round-two gate is cleared when
  \<open>verify=False\<close> is passed.
\<close>

theorem process_two_accepts_unverified_dict:
  "\<not> waiting_one alice_resumed \<and> waiting_two alice_resumed
   \<and> fst (process_two (Some forged_two) None None True alice_resumed) = Inl InvalidProofError
   \<and> process_two (Some forged_two) None None False alice_resumed =
       (Inr (), alice_resumed\<lparr>slot_remote_A := Some 2,
                  slot_remote_zkp_A := Some \<lparr>zkp_gr = 0, zkp_b = 0, zkp_id = [98]\<rparr>,
                  waiting_two := False\<rparr>)"
  by (simp add: demo_defs all_defs)

section \<open>Key agreement\<close>

text \<open>
  Claim C1 asks for equal keys after the exchange of \<open>test_basic\<close>.  Over the subgroup
  of order 11 modulo 23, with the shared secret 5 and the exponents \<open>x2 = 5\<close> for Alice
  and \<open>x2 = 7\<close> for Bob, the exchange succeeds with every proof verified, and Alice
  derives 12 while Bob derives 9, in either order of the two parties.  The products
  \<open>x2 * secret\<close> are 25 and 35, which \<open>_compute_two\<close> reduces modulo \<open>p = 23\<close>.
\<close>

theorem test_basic_keys_differ:
  "demo 3 5 (Some 5) None None [97] = Inr alice \<and> demo 4 7 (Some 5) None None [98] = Inr bob
   \<and> signer_id alice \<noteq> signer_id bob
   \<and> test_basic alice bob = Inr (12, 9) \<and> test_basic bob alice = Inr (9, 12)"
  by (simp add: demo_defs all_defs)

subsection \<open>Agreement without reduction of the exponent\<close>

text \<open>
  When the generator satisfies \<open>g ^ q mod p = 1\<close>, the secret is at most \<open>q\<close> and both
  products \<open>x2 * secret\<close> are below \<open>p\<close> (so that the reduction modulo \<open>p\<close> in
  \<open>_compute_two\<close> changes nothing), an exchange that returns gives both sides the key
  \<open>g ^ (x2 * x4 * (x1 + x3) * secret) mod p\<close>.
\<close>

lemma power_order:
  fixes G P :: int
  assumes "G ^ Q mod P = 1"
  shows "G ^ (e + Q * k) mod P = G ^ e mod P"
proof -
  have "(G ^ Q) ^ k mod P = (G ^ Q mod P) ^ k mod P"
    by (simp add: power_mod)
  also have "\<dots> = 1 mod P"
    using assms by simp
  finally have one: "(G ^ Q) ^ k mod P = 1 mod P" .
  have "G ^ (e + Q * k) mod P = (G ^ e * ((G ^ Q) ^ k mod P)) mod P"
    by (simp add: power_add power_mult mod_mult_right_eq)
  also have "\<dots> = G ^ e mod P"
    by (simp add: one mod_mult_right_eq)
  finally show ?thesis .
qed

lemma key_algebra:
  fixes G P :: int
  assumes "G ^ Q mod P = 1" and "s \<le> Q"
  shows "(((G ^ b1 mod P * (G ^ a1 mod P) mod P * (G ^ a2 mod P) mod P) ^ (b2 * s) mod P)
            * ((G ^ b2 mod P) ^ (a2 * (Q - s)) mod P) mod P) ^ a2 mod P
         = G ^ (a2 * b2 * (a1 + b1) * s) mod P"
proof -
  obtain r where Q: "Q = s + r"
    using assms(2) by (metis le_add_diff_inverse)
  have "(((G ^ b1 mod P * (G ^ a1 mod P) mod P * (G ^ a2 mod P) mod P) ^ (b2 * s) mod P)
            * ((G ^ b2 mod P) ^ (a2 * (Q - s)) mod P) mod P) ^ a2 mod P
        = (((G ^ b1 * G ^ a1 * G ^ a2) ^ (b2 * s)) * ((G ^ b2) ^ (a2 * r))) ^ a2 mod P"
    by (simp add: Q mod_simps)
  also have "(((G ^ b1 * G ^ a1 * G ^ a2) ^ (b2 * s)) * ((G ^ b2) ^ (a2 * r))) ^ a2
        = G ^ (((b1 + a1 + a2) * (b2 * s) + b2 * (a2 * r)) * a2)"
    by (simp only: power_add power_mult)
  also have "((b1 + a1 + a2) * (b2 * s) + b2 * (a2 * r)) * a2
        = a2 * b2 * (a1 + b1) * s + Q * (a2 * a2 * b2)"
    by (simp add: Q algebra_simps)
  also have "G ^ (a2 * b2 * (a1 + b1) * s + Q * (a2 * a2 * b2)) mod P
        = G ^ (a2 * b2 * (a1 + b1) * s) mod P"
    by (rule power_order [OF assms(1)])
  finally show ?thesis .
qed

lemma test_basic_Inr:
  assumes "test_basic a b = Inr (ka, kb)"
  obtains bob_one b1 a1 alice_one a2 b2 bob_two b3 a3 alice_two a4 b4 sa sb
  where "one b = (Inr bob_one, b1)"
    and "process_one (Some bob_one) None None None None True a = (Inr (), a1)"
    and "one a1 = (Inr alice_one, a2)"
    and "process_one (Some alice_one) None None None None True b1 = (Inr (), b2)"
    and "two b2 = (Inr bob_two, b3)"
    and "process_two (Some bob_two) None None True a2 = (Inr (), a3)"
    and "two a3 = (Inr alice_two, a4)"
    and "process_two (Some alice_two) None None True b3 = (Inr (), b4)"
    and "K a4 = (Inr ka, sa)"
    and "K b4 = (Inr kb, sb)"
proof -
  from assms obtain bob_one b1 where 1: "one b = (Inr bob_one, b1)"
    and r1: "then_e (run (process_one (Some bob_one) None None None None True) a) (\<lambda>(_, alice1).
     then_e (run one alice1) (\<lambda>(alice_one, alice2).
     then_e (run (process_one (Some alice_one) None None None None True) b1) (\<lambda>(_, bob2).
     then_e (run two bob2) (\<lambda>(bob_two, bob3).
     then_e (run (process_two (Some bob_two) None None True) alice2) (\<lambda>(_, alice3).
     then_e (run two alice3) (\<lambda>(alice_two, alice4).
     then_e (run (process_two (Some alice_two) None None True) bob3) (\<lambda>(_, bob4).
     then_e (run K alice4) (\<lambda>(k_alice, _).
     then_e (run K bob4) (\<lambda>(k_bob, _).
     Inr (k_alice, k_bob)))))))))) = Inr (ka, kb)"
    unfolding test_basic_def by (elim then_run_Inr) simp
  from r1 obtain u1 a1 where 2: "process_one (Some bob_one) None None None None True a = (Inr u1, a1)"
    and r2: "then_e (run one a1) (\<lambda>(alice_one, alice2).
     then_e (run (process_one (Some alice_one) None None None None True) b1) (\<lambda>(_, bob2).
     then_e (run two bob2) (\<lambda>(bob_two, bob3).
     then_e (run (process_two (Some bob_two) None None True) alice2) (\<lambda>(_, alice3).
     then_e (run two alice3) (\<lambda>(alice_two, alice4).
     then_e (run (process_two (Some alice_two) None None True) bob3) (\<lambda>(_, bob4).
     then_e (run K alice4) (\<lambda>(k_alice, _).
     then_e (run K bob4) (\<lambda>(k_bob, _).
     Inr (k_alice, k_bob))))))))) = Inr (ka, kb)"
    by (elim then_run_Inr) simp
  from r2 obtain alice_one a2 where 3: "one a1 = (Inr alice_one, a2)"
    and r3: "then_e (run (process_one (Some alice_one) None None None None True) b1) (\<lambda>(_, bob2).
     then_e (run two bob2) (\<lambda>(bob_two, bob3).
     then_e (run (process_two (Some bob_two) None None True) a2) (\<lambda>(_, alice3).
     then_e (run two alice3) (\<lambda>(alice_two, alice4).
     then_e (run (process_two (Some alice_two) None None True) bob3) (\<lambda>(_, bob4).
     then_e (run K alice4) (\<lambda>(k_alice, _).
     then_e (run K bob4) (\<lambda>(k_bob, _).
     Inr (k_alice, k_bob)))))))) = Inr (ka, kb)"
    by (elim then_run_Inr) simp
  from r3 obtain u2 b2 where 4: "process_one (Some alice_one) None None None None True b1 = (Inr u2, b2)"
    and r4: "then_e (run two b2) (\<lambda>(bob_two, bob3).
     then_e (run (process_two (Some bob_two) None None True) a2) (\<lambda>(_, alice3).
     then_e (run two alice3) (\<lambda>(alice_two, alice4).
     then_e (run (process_two (Some alice_two) None None True) bob3) (\<lambda>(_, bob4).
     then_e (run K alice4) (\<lambda>(k_alice, _).
     then_e (run K bob4) (\<lambda>(k_bob, _).
     Inr (k_alice, k_bob))))))) = Inr (ka, kb)"
    by (elim then_run_Inr) simp
  from r4 obtain bob_two b3 where 5: "two b2 = (Inr bob_two, b3)"
    and r5: "then_e (run (process_two (Some bob_two) None None True) a2) (\<lambda>(_, alice3).
     then_e (run two alice3) (\<lambda>(alice_two, alice4).
     then_e (run (process_two (Some alice_two) None None True) b3) (\<lambda>(_, bob4).
     then_e (run K alice4) (\<lambda>(k_alice, _).
     then_e (run K bob4) (\<lambda>(k_bob, _).
     Inr (k_alice, k_bob)))))) = Inr (ka, kb)"
    by (elim then_run_Inr) simp
  from r5 obtain u3 a3 where 6: "process_two (Some bob_two) None None True a2 = (Inr u3, a3)"
    and r6: "then_e (run two a3) (\<lambda>(alice_two, alice4).
     then_e (run (process_two (Some alice_two) None None True) b3) (\<lambda>(_, bob4).
     then_e (run K alice4) (\<lambda>(k_alice, _).
     then_e (run K bob4) (\<lambda>(k_bob, _).
     Inr (k_alice, k_bob))))) = Inr (ka, kb)"
    by (elim then_run_Inr) simp
  from r6 obtain alice_two a4 where 7: "two a3 = (Inr alice_two, a4)"
    and r7: "then_e (run (process_two (Some alice_two) None None True) b3) (\<lambda>(_, bob4).
     then_e (run K a4) (\<lambda>(k_alice, _).
     then_e (run K bob4) (\<lambda>(k_bob, _).
     Inr (k_alice, k_bob)))) = Inr (ka, kb)"
    by (elim then_run_Inr) simp
  from r7 obtain u4 b4 where 8: "process_two (Some alice_two) None None True b3 = (Inr u4, b4)"
    and r8: "then_e (run K a4) (\<lambda>(k_alice, _).
     then_e (run K b4) (\<lambda>(k_bob, _).
     Inr (k_alice, k_bob))) = Inr (ka, kb)"
    by (elim then_run_Inr) simp
  from r8 obtain k1 sa where 9: "K a4 = (Inr k1, sa)"
    and r9: "then_e (run K b4) (\<lambda>(k_bob, _). Inr (k1, k_bob)) = Inr (ka, kb)"
    by (elim then_run_Inr) simp
  from r9 obtain k2 sb where 10: "K b4 = (Inr k2, sb)" and r10: "(k1, k2) = (ka, kb)"
    by (elim then_run_Inr) simp
  from 1 2 3 4 5 6 7 8 9 10 r10 that show thesis
    by simp
qed

lemma pypow_nonneg: "m \<noteq> 0 \<Longrightarrow> 0 \<le> e \<Longrightarrow> pypow b e m = Inr (b ^ nat e mod m)"
  by (simp add: pypow_def)

lemma K_value:
  assumes "K s = (Inr k, t)" and "\<not> waiting_two s" and "slot_K s = None"
    and "slot_secret s = Some sec" and "slot_remote_gx2 s = Some rg" and "slot_remote_A s = Some ra"
    and "p s \<noteq> 0" and "0 \<le> x2 s" and "sec \<le> q s"
  shows "k = (ra * (rg ^ nat (x2 s * (q s - sec)) mod p s) mod p s) ^ nat (x2 s) mod p s"
proof -
  from assms(1) have "fst (K s) = Inr k"
    by simp
  with assms(2-) show ?thesis
    by (simp add: K_after_two then_e_def opt_int_def py_mod_def pypow_nonneg split: if_splits)
qed

lemma test_basic_agreement:
  assumes run: "test_basic a b = Inr (ka, kb)"
    and grp: "p b = p a" "g b = g a" "q b = q a"
    and ord: "g a ^ nat (q a) mod p a = 1"
    and sec: "slot_secret a = Some sec" "slot_secret b = Some sec"
    and fresh: "slot_K a = None" "slot_K b = None"
    and nonneg: "0 \<le> x1 a" "0 \<le> x2 a" "0 \<le> x1 b" "0 \<le> x2 b" "0 \<le> sec"
    and small: "sec \<le> q a" "x2 a * sec < p a" "x2 b * sec < p a"
  shows "ka = kb"
proof -
  from run obtain bob_one b1 a1 alice_one a2 b2 bob_two b3 a3 alice_two a4 b4 sa sb
    where s1: "one b = (Inr bob_one, b1)"
      and s2: "process_one (Some bob_one) None None None None True a = (Inr (), a1)"
      and s3: "one a1 = (Inr alice_one, a2)"
      and s4: "process_one (Some alice_one) None None None None True b1 = (Inr (), b2)"
      and s5: "two b2 = (Inr bob_two, b3)"
      and s6: "process_two (Some bob_two) None None True a2 = (Inr (), a3)"
      and s7: "two a3 = (Inr alice_two, a4)"
      and s8: "process_two (Some alice_two) None None True b3 = (Inr (), b4)"
      and s9: "K a4 = (Inr ka, sa)"
      and s10: "K b4 = (Inr kb, sb)"
    by (rule test_basic_Inr)
  define P G where "P = p a" and "G = g a"
  define Q c1 c2 d1 d2 s where "Q = nat (q a)" and "c1 = nat (x1 a)" and "c2 = nat (x2 a)"
    and "d1 = nat (x1 b)" and "d2 = nat (x2 b)" and "s = nat sec"
  note defs = P_def G_def Q_def c1_def c2_def d1_def d2_def s_def
  from one_okD [OF s1] obtain n1 y1 y2 where
    b1: "b1 = b\<lparr>rng_pos := n1, slot_gx1 := Some (m_gx1 bob_one), slot_gx2 := Some (m_gx2 bob_one),
                 slot_zkp_x1 := y1, slot_zkp_x2 := y2\<rparr>"
    and X3: "pypow (g b) (x1 b) (p b) = Inr (m_gx1 bob_one)"
    and X4: "pypow (g b) (x2 b) (p b) = Inr (m_gx2 bob_one)"
    by blast
  note a1 = process_one_okD [OF s2]
  from a1(3) have P0: "P \<noteq> 0"
    by (simp add: P_def)
  from one_okD [OF s3] obtain n2 y3 y4 where
    a2: "a2 = a1\<lparr>rng_pos := n2, slot_gx1 := Some (m_gx1 alice_one), slot_gx2 := Some (m_gx2 alice_one),
                  slot_zkp_x1 := y3, slot_zkp_x2 := y4\<rparr>"
    and X1: "pypow (g a1) (x1 a1) (p a1) = Inr (m_gx1 alice_one)"
    and X2: "pypow (g a1) (x2 a1) (p a1) = Inr (m_gx2 alice_one)"
    by blast
  note b2 = process_one_okD [OF s4]
  have gx_b2: "slot_gx1 b2 = Some (m_gx1 bob_one)"
    by (simp add: b2(1) b1)
  from two_okD [OF s5 gx_b2] obtain n3 y5 rg1 rg2 sec' where
    b3: "b3 = b2\<lparr>rng_pos := n3, slot_A := Some (m_A bob_two), slot_zkp_A := y5\<rparr>"
    and B: "slot_remote_gx1 b2 = Some rg1" "slot_remote_gx2 b2 = Some rg2"
      "slot_secret b2 = Some sec'"
      "pypow (m_gx1 bob_one * rg1 mod p b2 * rg2 mod p b2) (x2 b2 * sec' mod p b2) (p b2)
         = Inr (m_A bob_two)"
    by blast
  have a3: "a3 = a2\<lparr>slot_remote_A := Some (m_A bob_two),
                    slot_remote_zkp_A := Some (m_zkp_A bob_two), waiting_two := False\<rparr>"
    by (rule process_two_okD(1) [OF s6]) (simp_all add: a2)
  have gx_a3: "slot_gx1 a3 = Some (m_gx1 alice_one)"
    by (simp add: a3 a2)
  from two_okD [OF s7 gx_a3] obtain n4 y6 rg3 rg4 sec'' where
    a4: "a4 = a3\<lparr>rng_pos := n4, slot_A := Some (m_A alice_two), slot_zkp_A := y6\<rparr>"
    and A: "slot_remote_gx1 a3 = Some rg3" "slot_remote_gx2 a3 = Some rg4"
      "slot_secret a3 = Some sec''"
      "pypow (m_gx1 alice_one * rg3 mod p a3 * rg4 mod p a3) (x2 a3 * sec'' mod p a3) (p a3)
         = Inr (m_A alice_two)"
    by blast
  have b4: "b4 = b3\<lparr>slot_remote_A := Some (m_A alice_two),
                    slot_remote_zkp_A := Some (m_zkp_A alice_two), waiting_two := False\<rparr>"
    by (rule process_two_okD(1) [OF s8]) (simp_all add: b3 b2(1) b1)
  have "0 \<le> x2 a * sec"
    using nonneg by simp
  with small(2) have Ppos: "0 < P"
    by (simp add: P_def)
  have pa: "p a1 = P" "g a1 = G" "x1 a1 = x1 a" "x2 a1 = x2 a"
    by (simp_all add: a1(1) defs)
  have pb: "p b = P" "g b = G"
    by (simp_all add: grp defs)
  have x1v: "m_gx1 alice_one = G ^ c1 mod P" and x2v: "m_gx2 alice_one = G ^ c2 mod P"
    using X1 X2 P0 nonneg unfolding pa by (simp_all add: pypow_nonneg c1_def c2_def)
  have x3v: "m_gx1 bob_one = G ^ d1 mod P" and x4v: "m_gx2 bob_one = G ^ d2 mod P"
    using X3 X4 P0 nonneg unfolding pb by (simp_all add: pypow_nonneg d1_def d2_def)
  have e_a: "nat (x2 a * sec mod P) = c2 * s" and e_b: "nat (x2 b * sec mod P) = d2 * s"
    using small nonneg by (simp_all add: defs nat_mult_distrib)
  have nn: "0 \<le> x2 a * sec mod P" "0 \<le> x2 b * sec mod P"
    using Ppos by simp_all
  have fb: "p b2 = P" "x2 b2 = x2 b" "slot_secret b2 = Some sec"
    "slot_remote_gx1 b2 = Some (G ^ c1 mod P)"
    "slot_remote_gx2 b2 = Some (G ^ c2 mod P)"
    by (simp_all add: b2(1) b1 pb sec x1v x2v)
  from B(1-3) have rb: "rg1 = G ^ c1 mod P" "rg2 = G ^ c2 mod P" "sec' = sec"
    unfolding fb by simp_all
  have Bv: "m_A bob_two =
      (G ^ d1 mod P * (G ^ c1 mod P) mod P * (G ^ c2 mod P) mod P) ^ (d2 * s) mod P"
    using B(4) unfolding fb rb x3v pypow_nonneg [OF P0 nn(2)] e_b by simp
  have fa: "p a3 = P" "x2 a3 = x2 a" "slot_secret a3 = Some sec"
    "slot_remote_gx1 a3 = Some (G ^ d1 mod P)"
    "slot_remote_gx2 a3 = Some (G ^ d2 mod P)"
    by (simp_all add: a3 a2 a1(1) sec x3v x4v P_def)
  from A(1-3) have ra: "rg3 = G ^ d1 mod P" "rg4 = G ^ d2 mod P" "sec'' = sec"
    unfolding fa by simp_all
  have Av: "m_A alice_two =
      (G ^ c1 mod P * (G ^ d1 mod P) mod P * (G ^ d2 mod P) mod P) ^ (c2 * s) mod P"
    using A(4) unfolding fa ra x1v pypow_nonneg [OF P0 nn(1)] e_a by simp
  have f_a: "nat (x2 a * (q a - sec)) = c2 * (Q - s)"
    and f_b: "nat (x2 b * (q a - sec)) = d2 * (Q - s)"
    using small nonneg by (simp_all add: defs nat_mult_distrib nat_diff_distrib)
  have ga: "\<not> waiting_two a4" "slot_K a4 = None" "slot_secret a4 = Some sec"
    "slot_remote_gx2 a4 = Some (G ^ d2 mod P)" "slot_remote_A a4 = Some (m_A bob_two)"
    "p a4 \<noteq> 0" "0 \<le> x2 a4" "sec \<le> q a4"
    using fresh sec P0 nonneg small by (simp_all add: a4 a3 a2 a1(1) x4v P_def)
  have gb: "\<not> waiting_two b4" "slot_K b4 = None" "slot_secret b4 = Some sec"
    "slot_remote_gx2 b4 = Some (G ^ c2 mod P)" "slot_remote_A b4 = Some (m_A alice_two)"
    "p b4 \<noteq> 0" "0 \<le> x2 b4" "sec \<le> q b4"
    using fresh sec P0 nonneg small grp by (simp_all add: b4 b3 b2(1) b1 x2v pb)
  have more_a: "x2 a4 = x2 a" "q a4 = q a" "p a4 = P"
    by (simp_all add: a4 a3 a2 a1(1) P_def)
  have more_b: "x2 b4 = x2 b" "q b4 = q a" "p b4 = P"
    by (simp_all add: b4 b3 b2(1) b1 grp(3) pb)
  have ka: "ka = (m_A bob_two * ((G ^ d2 mod P) ^ (c2 * (Q - s)) mod P) mod P) ^ c2 mod P"
    using K_value [OF s9 ga] unfolding more_a f_a by (simp add: c2_def)
  have kb: "kb = (m_A alice_two * ((G ^ c2 mod P) ^ (d2 * (Q - s)) mod P) mod P) ^ d2 mod P"
    using K_value [OF s10 gb] unfolding more_b f_b by (simp add: d2_def)
  have o: "G ^ Q mod P = 1" and le: "s \<le> Q"
    using ord small nonneg by (simp_all add: defs)
  have "ka = G ^ (c2 * d2 * (c1 + d1) * s) mod P"
    unfolding ka Bv by (rule key_algebra [OF o le])
  moreover have "kb = G ^ (d2 * c2 * (d1 + c1) * s) mod P"
    unfolding kb Av by (rule key_algebra [OF o le])
  ultimately show ?thesis
    by (simp add: ac_simps)
qed

lemma constructed_fresh:
  assumes "JPAKE (Some a1) (Some a2) (Some (SecretInt sec)) None None None params sid hash tape
             = Inr s"
  shows "p s = par_p params \<and> g s = par_g params \<and> q s = par_q params \<and> x1 s = a1 \<and> x2 s = a2
         \<and> slot_secret s = Some sec \<and> \<not> waiting_secret s \<and> waiting_one s \<and> waiting_two s
         \<and> slot_K s = None \<and> slot_gx1 s = None \<and> slot_A s = None"
  using assms
  by (auto simp: JPAKE_def init_body_def blank_def bnd_def ret_def lift_def assign_def raise_def
        getrandbits_def set_secret_def secret_to_int_def
        split: option.splits str_or_bytes.splits sum.splits prod.splits if_splits)

lemma constructed_agreement:
  assumes "JPAKE (Some a1) (Some a2) (Some (SecretInt sec)) None None None params sid_a hash_a tape_a
             = Inr sa"
    and "JPAKE (Some b1) (Some b2) (Some (SecretInt sec)) None None None params sid_b hash_b tape_b
             = Inr sb"
    and "test_basic sa sb = Inr (ka, kb)"
    and "par_g params ^ nat (par_q params) mod par_p params = 1"
    and "0 \<le> a1" "0 \<le> a2" "0 \<le> b1" "0 \<le> b2" "0 \<le> sec" "sec \<le> par_q params"
    and "a2 * sec < par_p params" "b2 * sec < par_p params"
  shows "ka = kb"
proof -
  note fa = constructed_fresh [OF assms(1)] and fb = constructed_fresh [OF assms(2)]
  show ?thesis
    by (rule test_basic_agreement [OF assms(3), of sec]) (use fa fb assms(4-) in simp_all)
qed

lemma agreement_example:
  "test_basic (demo_session 3 5 (Some 3) None None [97]) (demo_session 4 7 (Some 3) None None [98])
     = Inr (6, 6)"
  by (simp add: demo_defs all_defs)

end
